theory Spec2Isabelle
  imports Complex_Main "HOL-Library.Code_Target_Nat"
begin

section \<open>JSON values and Python truthiness\<close>

text \<open>
  Both handlers receive their event as a decoded JSON document. A Python \<open>dict\<close> is an
  association list read with \<open>map_of\<close>; \<open>None\<close> is \<open>JNull\<close>.
\<close>

datatype json =
    JNull
  | JBool bool
  | JNum rat
  | JStr string
  | JArr "json list"
  | JObj "(string \<times> json) list"

type_synonym pydict = "(string \<times> json) list"

text \<open>\<open>bool(v)\<close>: what \<open>if v\<close>, \<open>not v\<close> and \<open>all([...])\<close> test.\<close>

fun truthy :: "json \<Rightarrow> bool" where
  "truthy JNull = False"
| "truthy (JBool b) = b"
| "truthy (JNum n) = (n \<noteq> 0)"
| "truthy (JStr s) = (s \<noteq> [])"
| "truthy (JArr xs) = (xs \<noteq> [])"
| "truthy (JObj kvs) = (kvs \<noteq> [])"

text \<open>\<open>d.get(k, default)\<close>; \<open>d.get(k)\<close> is \<open>dict_get d k JNull\<close>.\<close>

definition dict_get :: "pydict \<Rightarrow> string \<Rightarrow> json \<Rightarrow> json" where
  "dict_get d k dflt = (case map_of d k of None \<Rightarrow> dflt | Some v \<Rightarrow> v)"

section \<open>Restart executor (restart-executor/lambda\_function.py)\<close>

text \<open>
  An exception of the executor: the \<open>ValueError\<close> raised by the required-field check, or
  any exception of an external call, carrying its \<open>str(e)\<close>.
\<close>

datatype exec_error = MissingParameters | ExternalFailure string

text \<open>
  \<open>error_msg if error_msg else None\<close> in \<open>send_restart_notification\<close>: an empty
  message becomes \<open>None\<close>. The message of \<open>MissingParameters\<close> is a non-empty literal.
\<close>

fun error_field :: "exec_error \<Rightarrow> exec_error option" where
  "error_field MissingParameters = Some MissingParameters"
| "error_field (ExternalFailure m) = (if m = [] then None else Some (ExternalFailure m))"

text \<open>The \<open>result\<close> dictionary (its human-readable \<open>message\<close> entry is left out).\<close>

record restart_result =
  r_status :: string
  r_cluster :: json
  r_service :: json
  r_deployment_id :: "string option"

text \<open>The \<open>notification_data\<close> of \<open>send_restart_notification\<close> (without the clock reading).\<close>

record restart_notification =
  n_resource_id :: json
  n_cluster_name :: json
  n_service_name :: json
  n_status :: string
  n_restart_reason :: json
  n_test_mode :: json
  n_result :: "restart_result option"
  n_error :: "exec_error option"

text \<open>The calls the executor makes on external services, in the order it makes them.\<close>

datatype exec_call =
    UpdateService json json
  | RemoveTargets json
  | DeleteRule json
  | RestartNotification restart_notification

text \<open>
  What the external services answer: \<open>update_service\<close> gives the deployment id (or
  \<open>None\<close> when the deployment list is empty) or raises; the two EventBridge calls
  succeed or raise.
\<close>

record exec_world =
  ecs_update_service :: "json \<Rightarrow> json \<Rightarrow> exec_error + string option"
  events_remove_targets :: "json \<Rightarrow> exec_error option"
  events_delete_rule :: "json \<Rightarrow> exec_error option"

datatype exec_body =
    RestartDone json restart_result json
  | RestartError exec_error json json

record exec_response =
  statusCode :: int
  body :: exec_body

definition restart_ecs_service ::
  "exec_world \<Rightarrow> json \<Rightarrow> json \<Rightarrow> json \<Rightarrow> (exec_error + restart_result) \<times> exec_call list" where
  "restart_ecs_service W cluster_name service_name restart_reason =
     (case ecs_update_service W cluster_name service_name of
        Inl e \<Rightarrow> (Inl e, [UpdateService cluster_name service_name])
      | Inr dep \<Rightarrow>
          (Inr \<lparr>r_status = ''success'', r_cluster = cluster_name,
                r_service = service_name, r_deployment_id = dep\<rparr>,
           [UpdateService cluster_name service_name]))"

text \<open>\<open>cleanup_rule\<close> catches every exception: it returns nothing but the calls made.\<close>

definition cleanup_rule :: "exec_world \<Rightarrow> json \<Rightarrow> exec_call list" where
  "cleanup_rule W rule_name =
     (case events_remove_targets W rule_name of
        Some e \<Rightarrow> [RemoveTargets rule_name]
      | None \<Rightarrow> [RemoveTargets rule_name, DeleteRule rule_name])"

text \<open>
  \<open>send_restart_notification\<close>: webhook delivery failures are caught inside, so the call
  always returns; it is recorded as one \<open>RestartNotification\<close>.
\<close>

definition send_restart_notification ::
  "json \<Rightarrow> string \<Rightarrow> json \<Rightarrow> json \<Rightarrow> json \<Rightarrow> json \<Rightarrow> restart_result option
     \<Rightarrow> exec_error option \<Rightarrow> exec_call list" where
  "send_restart_notification resource_id status cluster_name service_name restart_reason
       test_mode result error_msg =
     [RestartNotification
        \<lparr>n_resource_id = resource_id, n_cluster_name = cluster_name,
         n_service_name = service_name, n_status = status,
         n_restart_reason =
           (if truthy restart_reason then restart_reason else JStr ''scheduled_restart''),
         n_test_mode = test_mode, n_result = result,
         n_error = (case error_msg of None \<Rightarrow> None | Some e \<Rightarrow> error_field e)\<rparr>]"

text \<open>The \<open>except Exception\<close> branch of the executor's \<open>lambda_handler\<close>.\<close>

definition executor_except ::
  "pydict \<Rightarrow> exec_error \<Rightarrow> exec_response \<times> exec_call list" where
  "executor_except event e =
     (\<lparr>statusCode = 500,
       body = RestartError e (dict_get event ''resource_id'' (JStr ''unknown''))
                (dict_get event ''test_mode'' (JBool False))\<rparr>,
      send_restart_notification
        (dict_get event ''resource_id'' (JStr ''unknown''))
        ''FAILED''
        (dict_get event ''cluster_name'' (JStr ''unknown''))
        (dict_get event ''service_name'' (JStr ''unknown''))
        (dict_get event ''restart_reason'' (JStr ''scheduled_restart''))
        (dict_get event ''test_mode'' (JBool False))
        None (Some e))"

definition lambda_handler_executor ::
  "exec_world \<Rightarrow> pydict \<Rightarrow> exec_response \<times> exec_call list" where
  "lambda_handler_executor W event =
     (let resource_id = dict_get event ''resource_id'' JNull;
          cluster_name = dict_get event ''cluster_name'' JNull;
          service_name = dict_get event ''service_name'' JNull;
          restart_reason = dict_get event ''restart_reason'' (JStr ''scheduled_restart'');
          rule_name = dict_get event ''rule_name'' JNull;
          test_mode = dict_get event ''test_mode'' (JBool False)
      in
      if \<not> (truthy resource_id \<and> truthy cluster_name \<and> truthy service_name) then
        executor_except event MissingParameters
      else
        case (if truthy test_mode then
                (Inr \<lparr>r_status = ''test_success'', r_cluster = cluster_name,
                      r_service = service_name, r_deployment_id = None\<rparr>, [])
              else restart_ecs_service W cluster_name service_name restart_reason) of
          (Inl e, calls1) \<Rightarrow>
            (case executor_except event e of (resp, calls2) \<Rightarrow> (resp, calls1 @ calls2))
        | (Inr result, calls1) \<Rightarrow>
            (let calls2 = (if truthy rule_name \<and> \<not> truthy test_mode
                           then cleanup_rule W rule_name else []);
                 calls3 = send_restart_notification resource_id
                            (if r_status result \<in> set [''success'', ''test_success'']
                             then ''SUCCESS'' else ''FAILED'')
                            cluster_name service_name restart_reason test_mode
                            (Some result) None
             in (\<lparr>statusCode = 200, body = RestartDone resource_id result test_mode\<rparr>,
                 calls1 @ calls2 @ calls3)))"

fun is_restart_call :: "exec_call \<Rightarrow> bool" where
  "is_restart_call (UpdateService c s) = True"
| "is_restart_call _ = False"

fun is_cleanup_call :: "exec_call \<Rightarrow> bool" where
  "is_cleanup_call (RemoveTargets r) = True"
| "is_cleanup_call (DeleteRule r) = True"
| "is_cleanup_call _ = False"

fun notifications :: "exec_call list \<Rightarrow> restart_notification list" where
  "notifications [] = []"
| "notifications (RestartNotification n # cs) = n # notifications cs"
| "notifications (c # cs) = notifications cs"

section \<open>Dates and times\<close>

text \<open>
  A Python \<open>datetime\<close> is modelled by its wall-clock reading, counted in microseconds
  from 0001-01-01T00:00:00 of the proleptic Gregorian calendar, and its \<open>tzinfo\<close>: the
  UTC offset in microseconds, or \<open>None\<close> for a naive value. The calendar fields the source
  reads (\<open>year\<close>, \<open>hour\<close>, \<open>minute\<close>) are computed from the reading, the year as the
  library's \<open>_ord2ymd\<close> does; \<open>datetime(y, m, d, ...)\<close> builds the reading as
  \<open>_ymd2ord\<close> does.
\<close>

record datetime =
  wall :: int
  tzinfo :: "int option"

definition us_per_second :: int where "us_per_second = 1000000"
definition us_per_minute :: int where "us_per_minute = 60000000"
definition us_per_hour :: int where "us_per_hour = 3600000000"
definition us_per_day :: int where "us_per_day = 86400000000"

text \<open>\<open>datetime.max\<close> is 9999-12-31T23:59:59.999999, on the day of ordinal 3652059.\<close>

definition max_ordinal :: int where "max_ordinal = 3652059"

text \<open>
  The values Python can represent; offsets of a \<open>timezone\<close> lie strictly within a day.
\<close>

definition valid_datetime :: "datetime \<Rightarrow> bool" where
  "valid_datetime dt \<longleftrightarrow>
     0 \<le> wall dt \<and> wall dt < max_ordinal * us_per_day
     \<and> (case tzinfo dt of None \<Rightarrow> True | Some off \<Rightarrow> - us_per_day < off \<and> off < us_per_day)"

definition ord2year :: "int \<Rightarrow> int" where
  "ord2year ordinal =
     (let n = ordinal - 1;
          n400 = n div 146097; n = n mod 146097;
          n100 = n div 36524; n = n mod 36524;
          n4 = n div 1461; n = n mod 1461;
          n1 = n div 365;
          year = n400 * 400 + 1 + n100 * 100 + n4 * 4 + n1
      in if n1 = 4 \<or> n100 = 4 then year - 1 else year)"

definition is_leap :: "int \<Rightarrow> bool" where
  "is_leap year \<longleftrightarrow> year mod 4 = 0 \<and> (year mod 100 \<noteq> 0 \<or> year mod 400 = 0)"

definition days_before_year :: "int \<Rightarrow> int" where
  "days_before_year year = (let y = year - 1 in y * 365 + y div 4 - y div 100 + y div 400)"

definition days_before_month :: "int \<Rightarrow> int \<Rightarrow> int" where
  "days_before_month year month =
     [0, 31, 59, 90, 120, 151, 181, 212, 243, 273, 304, 334] ! nat (month - 1)
       + (if month > 2 \<and> is_leap year then 1 else 0)"

definition ymd2ord :: "int \<Rightarrow> int \<Rightarrow> int \<Rightarrow> int" where
  "ymd2ord year month day = days_before_year year + days_before_month year month + day"

definition year_of :: "datetime \<Rightarrow> int" where
  "year_of dt = ord2year (wall dt div us_per_day + 1)"

definition hour_of :: "datetime \<Rightarrow> int" where
  "hour_of dt = (wall dt mod us_per_day) div us_per_hour"

definition minute_of :: "datetime \<Rightarrow> int" where
  "minute_of dt = (wall dt mod us_per_hour) div us_per_minute"

text \<open>
  \<open>datetime(year, month, day, hour, minute, second, tzinfo=tz)\<close>, for the in-range
  arguments the source passes (a year read from a datetime, literal months and days).
\<close>

definition mk_datetime ::
  "int \<Rightarrow> int \<Rightarrow> int \<Rightarrow> int \<Rightarrow> int \<Rightarrow> int \<Rightarrow> int option \<Rightarrow> datetime" where
  "mk_datetime year month day hour minute second tz =
     \<lparr>wall = (ymd2ord year month day - 1) * us_per_day + hour * us_per_hour
               + minute * us_per_minute + second * us_per_second,
      tzinfo = tz\<rparr>"

text \<open>\<open>timezone.utc\<close> and \<open>timezone(timedelta(hours=8))\<close>.\<close>

definition utc :: int where "utc = 0"
definition china_tz :: int where "china_tz = 8 * us_per_hour"

definition replace_tzinfo :: "datetime \<Rightarrow> int \<Rightarrow> datetime" where
  "replace_tzinfo dt off = dt\<lparr>tzinfo := Some off\<rparr>"

text \<open>
  \<open>dt.utcoffset()\<close>. For a naive value Python's \<open>astimezone\<close> and \<open>timestamp\<close> consult
  the zone of the host (UTC on the Lambda runtime); the source applies them to aware values
  only.
\<close>

definition utcoffset :: "datetime \<Rightarrow> int" where
  "utcoffset dt = (case tzinfo dt of None \<Rightarrow> 0 | Some off \<Rightarrow> off)"

text \<open>The instant a value denotes, in microseconds of UTC wall-clock time.\<close>

definition utc_instant :: "datetime \<Rightarrow> int" where
  "utc_instant dt = wall dt - utcoffset dt"

text \<open>The exceptions of the planner.\<close>

datatype planner_error =
    AttributeError
  | TypeError
  | ValueError
  | IndexError
  | OverflowError
  | MissingExecutorArn
  | ServiceError string

text \<open>\<open>dt.astimezone(timezone.utc)\<close> raises \<open>OverflowError\<close> outside the representable range.\<close>

definition astimezone_utc :: "datetime \<Rightarrow> planner_error + datetime" where
  "astimezone_utc dt =
     (let u = wall dt - utcoffset dt
      in if 0 \<le> u \<and> u < max_ordinal * us_per_day
         then Inr \<lparr>wall = u, tzinfo = Some utc\<rparr> else Inl OverflowError)"

text \<open>
  \<open>a <= b\<close>: two aware values compare by instant, two naive ones by reading, and a naive
  with an aware one raises \<open>TypeError\<close>.
\<close>

definition dt_le :: "datetime \<Rightarrow> datetime \<Rightarrow> planner_error + bool" where
  "dt_le a b =
     (case (tzinfo a, tzinfo b) of
        (None, None) \<Rightarrow> Inr (wall a \<le> wall b)
      | (Some oa, Some ob) \<Rightarrow> Inr (wall a - oa \<le> wall b - ob)
      | _ \<Rightarrow> Inl TypeError)"

text \<open>\<open>(a - b).days\<close>, with the same \<open>TypeError\<close>; \<open>days\<close> is the floor.\<close>

definition days_between :: "datetime \<Rightarrow> datetime \<Rightarrow> planner_error + int" where
  "days_between a b =
     (case (tzinfo a, tzinfo b) of
        (None, None) \<Rightarrow> Inr ((wall a - wall b) div us_per_day)
      | (Some oa, Some ob) \<Rightarrow> Inr (((wall a - oa) - (wall b - ob)) div us_per_day)
      | _ \<Rightarrow> Inl TypeError)"

text \<open>\<open>dt + timedelta(days=n)\<close>.\<close>

definition add_days :: "datetime \<Rightarrow> int \<Rightarrow> planner_error + datetime" where
  "add_days dt n =
     (let w = wall dt + n * us_per_day
      in if 0 \<le> w \<and> w < max_ordinal * us_per_day
         then Inr (dt\<lparr>wall := w\<rparr>) else Inl OverflowError)"

text \<open>
  \<open>int(dt.timestamp())\<close> for an aware \<open>dt\<close> on a whole second: the seconds since
  1970-01-01T00:00:00Z (ordinal 719163), where the float that \<open>timestamp\<close> returns is
  exact. Outside that domain the definition is only the exact quotient cut towards zero:
  Python rounds a fraction of a second through a float and reads a naive value in the zone
  of the host. The properties below assume the domain; the source takes the timestamp of
  the result of \<open>calculate_next_4am\<close>, which lies in it.
\<close>

definition timestamp_int :: "datetime \<Rightarrow> int" where
  "timestamp_int dt =
     (let us = utc_instant dt - (719163 - 1) * us_per_day
      in if 0 \<le> us then us div us_per_second else - ((- us) div us_per_second))"

section \<open>Strings\<close>

text \<open>\<open>s.startswith(p)\<close> and \<open>sub in s\<close>.\<close>

fun startswith :: "string \<Rightarrow> string \<Rightarrow> bool" where
  "startswith [] s = True"
| "startswith (p # ps) [] = False"
| "startswith (p # ps) (c # cs) = (p = c \<and> startswith ps cs)"

fun contains :: "string \<Rightarrow> string \<Rightarrow> bool" where
  "contains sub [] = (sub = [])"
| "contains sub (c # cs) = (startswith sub (c # cs) \<or> contains sub cs)"

text \<open>\<open>s.split(sep)\<close> for a one-character separator: one more part than separators.\<close>

fun split_on :: "char \<Rightarrow> string \<Rightarrow> string list" where
  "split_on sep [] = [[]]"
| "split_on sep (c # cs) =
     (if c = sep then [] # split_on sep cs
      else (case split_on sep cs of [] \<Rightarrow> [[c]] | p # ps \<Rightarrow> (c # p) # ps))"

text \<open>
  \<open>s.replace(old, new)\<close> for a non-empty \<open>old\<close>, scanning from the left; the counter is
  the number of characters of a match still to skip.
\<close>

fun replace_skip :: "string \<Rightarrow> string \<Rightarrow> nat \<Rightarrow> string \<Rightarrow> string" where
  "replace_skip old new k [] = []"
| "replace_skip old new (Suc k) (c # cs) = replace_skip old new k cs"
| "replace_skip old new 0 (c # cs) =
     (if startswith old (c # cs) then new @ replace_skip old new (length old - 1) cs
      else c # replace_skip old new 0 cs)"

definition str_replace :: "string \<Rightarrow> string \<Rightarrow> string \<Rightarrow> string" where
  "str_replace old new s = replace_skip old new 0 s"

text \<open>\<open>s.lower()\<close> and \<open>s.strip()\<close> on ASCII.\<close>

definition lower_char :: "char \<Rightarrow> char" where
  "lower_char c =
     (let n = (of_char c :: nat) in if 65 \<le> n \<and> n \<le> 90 then char_of (n + 32) else c)"

definition lower :: "string \<Rightarrow> string" where
  "lower s = map lower_char s"

definition is_space :: "char \<Rightarrow> bool" where
  "is_space c \<longleftrightarrow> (of_char c :: nat) \<in> set [9, 10, 11, 12, 13, 28, 29, 30, 31, 32]"

definition strip :: "string \<Rightarrow> string" where
  "strip s = rev (dropWhile is_space (rev (dropWhile is_space s)))"

text \<open>\<open>str(n)\<close> for an integer.\<close>

fun str_nat :: "nat \<Rightarrow> string" where
  "str_nat n = (if n < 10 then [''0123456789'' ! n]
                else str_nat (n div 10) @ [''0123456789'' ! (n mod 10)])"

declare str_nat.simps [simp del]

definition str_int :: "int \<Rightarrow> string" where
  "str_int n = (if n < 0 then CHR ''-'' # str_nat (nat (- n)) else str_nat (nat n))"

section \<open>Conflict planner (smart-handler/lambda\_function.py)\<close>

subsection \<open>External services and the calls made on them\<close>

text \<open>
  The answer of the parameter store for one year: the two stored dates as
  \<open>datetime.fromisoformat\<close> reads them, the distinguished \<open>ParameterNotFound\<close>, or any
  other failure (store unreachable, value malformed).
\<close>

datatype ssm_reply = ParameterFound datetime datetime | ParameterNotFound | SsmFailure

text \<open>One entry of the \<open>describe_tasks\<close> answer: the fields the source reads, when present.\<close>

record task_description =
  task_group :: "string option"
  task_serviceName :: "string option"

text \<open>
  What the planner reads from outside: the clock (\<open>datetime.now(timezone.utc)\<close>), the
  parameter store, ECS, EventBridge (\<open>Some e\<close>: the call raises \<open>e\<close>) and the environment
  variable \<open>RESTART_EXECUTOR_ARN\<close>.
\<close>

record planner_world =
  clock_utc :: datetime
  ssm_get_parameter :: "int \<Rightarrow> ssm_reply"
  ssm_put_parameter :: "int \<Rightarrow> planner_error option"
  ecs_describe_tasks :: "string \<Rightarrow> string \<Rightarrow> task_description list option"
  ecs_list_services :: "string \<Rightarrow> string list option"
  events_put_rule :: "string \<Rightarrow> planner_error option"
  restart_executor_arn :: "string option"
  events_put_targets :: "string \<Rightarrow> planner_error option"

text \<open>Library functions the planner applies to strings: MD5 in hex, and the ISO-8601 reader
  (\<open>None\<close>: \<open>ValueError\<close>).\<close>

record library =
  md5_hexdigest :: "string \<Rightarrow> string"
  fromisoformat :: "string \<Rightarrow> datetime option"

text \<open>The \<open>notification_data\<close> of the two maintenance notifications, and the error one.\<close>

record maintenance_notification =
  m_action :: string
  m_resource_id :: string
  m_start :: datetime
  m_end :: datetime
  m_days_until :: int
  m_severity :: string
  m_holiday_conflict :: bool
  m_test_mode :: json
  m_restart_time :: "datetime option"

datatype planner_notification =
    MaintenanceNotification maintenance_notification
  | ProcessingError planner_error json

record target_input =
  t_resource_id :: string
  t_cluster_name :: string
  t_service_name :: string
  t_resource_arn :: string
  t_rule_name :: string
  t_restart_reason :: string

text \<open>
  The planner's external calls in the order made. \<open>PutRule\<close> carries the fire time itself
  in place of the cron expression printed from its fields.
\<close>

datatype planner_call =
    SsmGetParameter int
  | SsmPutParameter int datetime datetime
  | DescribeTasks string string
  | ListServices string
  | PutRule string datetime
  | PutTargets string target_input
  | SendNotification planner_notification

datatype planner_body =
    BodyText string
  | BodyProcessed nat datetime json
  | BodyError planner_error

record planner_response =
  p_statusCode :: int
  p_body :: planner_body

subsection \<open>Blackout catalogue and overlap\<close>

definition get_default_spring_festival_dates ::
  "int \<Rightarrow> planner_error + (datetime \<times> datetime)" where
  "get_default_spring_festival_dates year =
     (let spring_festival_dates =
            [(2024, (mk_datetime 2024 2 10 0 0 0 (Some china_tz),
                     mk_datetime 2024 2 17 23 59 59 (Some china_tz))),
             (2025, (mk_datetime 2025 1 29 0 0 0 (Some china_tz),
                     mk_datetime 2025 2 5 23 59 59 (Some china_tz))),
             (2026, (mk_datetime 2026 2 17 0 0 0 (Some china_tz),
                     mk_datetime 2026 2 24 23 59 59 (Some china_tz))),
             (2027, (mk_datetime 2027 2 6 0 0 0 (Some china_tz),
                     mk_datetime 2027 2 13 23 59 59 (Some china_tz))),
             (2028, (mk_datetime 2028 1 26 0 0 0 (Some china_tz),
                     mk_datetime 2028 2 2 23 59 59 (Some china_tz))),
             (2029, (mk_datetime 2029 2 13 0 0 0 (Some china_tz),
                     mk_datetime 2029 2 20 23 59 59 (Some china_tz))),
             (2030, (mk_datetime 2030 2 3 0 0 0 (Some china_tz),
                     mk_datetime 2030 2 10 23 59 59 (Some china_tz)))];
          default_dates =
            (case map_of spring_festival_dates year of
               Some d \<Rightarrow> d
             | None \<Rightarrow> (mk_datetime year 2 1 0 0 0 (Some china_tz),
                        mk_datetime year 2 8 23 59 59 (Some china_tz)))
      in case astimezone_utc (fst default_dates) of
           Inl e \<Rightarrow> Inl e
         | Inr s \<Rightarrow> (case astimezone_utc (snd default_dates) of
                       Inl e \<Rightarrow> Inl e
                     | Inr e \<Rightarrow> Inr (s, e)))"

text \<open>
  \<open>get_spring_festival_dates\<close>. A stored value without zone is taken as UTC+8. Any
  exception but \<open>ParameterNotFound\<close> (also an \<open>OverflowError\<close> of the conversion) leads to
  the built-in dates; after \<open>ParameterNotFound\<close> the built-in dates are written back, and
  a failure of that write is caught.
\<close>

definition get_spring_festival_dates ::
  "planner_world \<Rightarrow> int \<Rightarrow> (planner_error + (datetime \<times> datetime)) \<times> planner_call list" where
  "get_spring_festival_dates W year =
     (case ssm_get_parameter W year of
        ParameterFound start_date end_date \<Rightarrow>
          (let start_date = (if tzinfo start_date = None
                             then replace_tzinfo start_date china_tz else start_date);
               end_date = (if tzinfo end_date = None
                           then replace_tzinfo end_date china_tz else end_date)
           in case astimezone_utc start_date of
                Inl e \<Rightarrow> (get_default_spring_festival_dates year, [SsmGetParameter year])
              | Inr start_date_utc \<Rightarrow>
                  (case astimezone_utc end_date of
                     Inl e \<Rightarrow> (get_default_spring_festival_dates year, [SsmGetParameter year])
                   | Inr end_date_utc \<Rightarrow>
                       (Inr (start_date_utc, end_date_utc), [SsmGetParameter year])))
      | ParameterNotFound \<Rightarrow>
          (case get_default_spring_festival_dates year of
             Inl e \<Rightarrow> (get_default_spring_festival_dates year, [SsmGetParameter year])
           | Inr default_dates \<Rightarrow>
               (Inr default_dates,
                [SsmGetParameter year,
                 SsmPutParameter year (fst default_dates) (snd default_dates)]))
      | SsmFailure \<Rightarrow> (get_default_spring_festival_dates year, [SsmGetParameter year]))"

text \<open>The \<open>holidays\<close> list of \<open>check_holiday_conflict\<close>: the national holiday of the year
  and the spring festival.\<close>

definition holidays ::
  "planner_world \<Rightarrow> int \<Rightarrow> (planner_error + (datetime \<times> datetime) list) \<times> planner_call list" where
  "holidays W year =
     (case astimezone_utc (mk_datetime year 10 1 0 0 0 (Some china_tz)) of
        Inl e \<Rightarrow> (Inl e, [])
      | Inr national_day_start \<Rightarrow>
          (case astimezone_utc (mk_datetime year 10 8 23 59 59 (Some china_tz)) of
             Inl e \<Rightarrow> (Inl e, [])
           | Inr national_day_end \<Rightarrow>
               (case get_spring_festival_dates W year of
                  (Inl e, calls) \<Rightarrow> (Inl e, calls)
                | (Inr spring, calls) \<Rightarrow>
                    (Inr [(national_day_start, national_day_end), spring], calls))))"

text \<open>\<open>if dt.tzinfo is None: dt = dt.replace(tzinfo=timezone.utc)\<close>.\<close>

definition ensure_utc :: "datetime \<Rightarrow> datetime" where
  "ensure_utc dt = (if tzinfo dt = None then replace_tzinfo dt utc else dt)"

text \<open>The \<open>for\<close> loop of \<open>check_holiday_conflict\<close>; \<open>and\<close> evaluates its second
  comparison only when the first holds.\<close>

fun check_holiday_conflict_loop ::
  "datetime \<Rightarrow> datetime \<Rightarrow> (datetime \<times> datetime) list \<Rightarrow> planner_error + bool" where
  "check_holiday_conflict_loop maintenance_start maintenance_end [] = Inr False"
| "check_holiday_conflict_loop maintenance_start maintenance_end
       ((holiday_start, holiday_end) # rest) =
     (case dt_le maintenance_start (ensure_utc holiday_end) of
        Inl e \<Rightarrow> Inl e
      | Inr False \<Rightarrow> check_holiday_conflict_loop maintenance_start maintenance_end rest
      | Inr True \<Rightarrow>
          (case dt_le (ensure_utc holiday_start) maintenance_end of
             Inl e \<Rightarrow> Inl e
           | Inr True \<Rightarrow> Inr True
           | Inr False \<Rightarrow> check_holiday_conflict_loop maintenance_start maintenance_end rest))"

definition check_holiday_conflict ::
  "planner_world \<Rightarrow> datetime \<Rightarrow> datetime \<Rightarrow> (planner_error + bool) \<times> planner_call list" where
  "check_holiday_conflict W maintenance_start maintenance_end =
     (let year = year_of maintenance_start;
          maintenance_start = ensure_utc maintenance_start;
          maintenance_end = ensure_utc maintenance_end
      in case holidays W year of
           (Inl e, calls) \<Rightarrow> (Inl e, calls)
         | (Inr hs, calls) \<Rightarrow>
             (check_holiday_conflict_loop maintenance_start maintenance_end hs, calls))"

subsection \<open>Restart time\<close>

text \<open>\<open>calculate_next_4am\<close>, given the clock reading \<open>now\<close>.\<close>

definition calculate_next_4am :: "datetime \<Rightarrow> planner_error + datetime" where
  "calculate_next_4am now =
     (let next_4am = now\<lparr>wall := (wall now div us_per_day) * us_per_day + 4 * us_per_hour\<rparr>
      in if hour_of now \<ge> 4 \<or> (hour_of now = 3 \<and> minute_of now \<ge> 50)
         then add_days next_4am 1 else Inr next_4am)"

subsection \<open>Schedule creation\<close>

text \<open>The first lines of \<open>create_restart_schedule\<close>: the rule name.\<close>

definition rule_name_of :: "library \<Rightarrow> string \<Rightarrow> datetime \<Rightarrow> string" where
  "rule_name_of L resource_arn restart_time =
     (let resource_hash = take 8 (md5_hexdigest L resource_arn);
          timestamp = timestamp_int restart_time
      in ''ecs-restart-'' @ resource_hash @ ''-'' @ str_int timestamp)"

definition create_restart_schedule ::
  "library \<Rightarrow> planner_world \<Rightarrow> string \<Rightarrow> string \<Rightarrow> string \<Rightarrow> datetime \<Rightarrow> string \<Rightarrow> json
     \<Rightarrow> (planner_error + string) \<times> planner_call list" where
  "create_restart_schedule L W resource_id cluster_name service_name restart_time
       resource_arn test_mode =
     (let rule_name = rule_name_of L resource_arn restart_time
      in if truthy test_mode then (Inr rule_name, [])
         else case events_put_rule W rule_name of
                Some e \<Rightarrow> (Inl e, [PutRule rule_name restart_time])
              | None \<Rightarrow>
                  (case restart_executor_arn W of
                     None \<Rightarrow> (Inl MissingExecutorArn, [PutRule rule_name restart_time])
                   | Some arn \<Rightarrow>
                       if arn = [] then (Inl MissingExecutorArn, [PutRule rule_name restart_time])
                       else
                         (let target_input =
                                \<lparr>t_resource_id = resource_id, t_cluster_name = cluster_name,
                                 t_service_name = service_name, t_resource_arn = resource_arn,
                                 t_rule_name = rule_name,
                                 t_restart_reason = ''holiday_conflict_early_restart''\<rparr>
                          in case events_put_targets W rule_name of
                               Some e \<Rightarrow> (Inl e, [PutRule rule_name restart_time,
                                                   PutTargets rule_name target_input])
                             | None \<Rightarrow> (Inr rule_name, [PutRule rule_name restart_time,
                                                        PutTargets rule_name target_input]))))"

subsection \<open>Resource identity\<close>

text \<open>\<open>get_service_from_task_arn\<close>: every exception inside gives \<open>unknown-service\<close>.\<close>

definition get_service_from_task_arn ::
  "planner_world \<Rightarrow> string \<Rightarrow> string \<Rightarrow> string \<times> planner_call list" where
  "get_service_from_task_arn W task_arn cluster_name =
     (let task_id = last (split_on CHR ''/'' task_arn)
      in case ecs_describe_tasks W cluster_name task_id of
           None \<Rightarrow> (''unknown-service'', [DescribeTasks cluster_name task_id])
         | Some tasks \<Rightarrow>
             (case (case tasks of
                      [] \<Rightarrow> None
                    | task # _ \<Rightarrow>
                        (case task_group task of
                           None \<Rightarrow> task_serviceName task
                         | Some g \<Rightarrow>
                             if startswith ''service:'' g
                             then Some (str_replace ''service:'' [] g)
                             else task_serviceName task)) of
                Some name \<Rightarrow> (name, [DescribeTasks cluster_name task_id])
              | None \<Rightarrow>
                  (case ecs_list_services W cluster_name of
                     None \<Rightarrow> (''unknown-service'',
                               [DescribeTasks cluster_name task_id, ListServices cluster_name])
                   | Some [] \<Rightarrow> (''unknown-service'',
                                 [DescribeTasks cluster_name task_id, ListServices cluster_name])
                   | Some (first_service_arn # _) \<Rightarrow>
                       (last (split_on CHR ''/'' first_service_arn),
                        [DescribeTasks cluster_name task_id, ListServices cluster_name]))))"

text \<open>
  The body of the \<open>try\<close> of \<open>parse_ecs_resource_info\<close>. Its one raise is the
  \<open>IndexError\<close> of \<open>entity_value.split(':')[5]\<close>. An \<open>arn:aws\<close> value with fewer than
  three \<open>/\<close>-parts falls through to the last \<open>return\<close>, past the \<open>elif\<close>.
\<close>

definition parse_ecs_resource_info_body ::
  "planner_world \<Rightarrow> string \<Rightarrow> (planner_error + string \<times> string) \<times> planner_call list" where
  "parse_ecs_resource_info_body W entity_value =
     (if startswith ''arn:aws'' entity_value then
        (let parts = split_on CHR ''/'' entity_value
         in if length parts \<ge> 3 then
              (let fields = split_on CHR '':'' entity_value
               in if length fields \<le> 5 then (Inl IndexError, [])
                  else
                    (let resource_type = hd (split_on CHR ''/'' (fields ! 5));
                         cluster_name = parts ! (length parts - 2)
                     in if resource_type = ''service'' then
                          (Inr (cluster_name, last parts), [])
                        else if resource_type = ''task'' then
                          (case get_service_from_task_arn W entity_value cluster_name of
                             (service_name, calls) \<Rightarrow> (Inr (cluster_name, service_name), calls))
                        else (Inr (cluster_name, ''unknown-service''), [])))
            else (Inr (''unknown-cluster'', ''unknown-service''), []))
      else if CHR ''|'' \<in> set entity_value then
        (let parts = split_on CHR ''|'' entity_value
         in if length parts = 2 then (Inr (strip (parts ! 0), strip (parts ! 1)), [])
            else (Inr (''unknown-cluster'', ''unknown-service''), []))
      else (Inr (''unknown-cluster'', ''unknown-service''), []))"

text \<open>\<open>parse_ecs_resource_info\<close>: the body under \<open>except Exception\<close>.\<close>

definition parse_ecs_resource_info ::
  "planner_world \<Rightarrow> string \<Rightarrow> (string \<times> string) \<times> planner_call list" where
  "parse_ecs_resource_info W entity_value =
     (case parse_ecs_resource_info_body W entity_value of
        (Inl e, calls) \<Rightarrow> ((''unknown-cluster'', ''unknown-service''), calls)
      | (Inr identity, calls) \<Rightarrow> (identity, calls))"

text \<open>
  The two shapes of a raw identifier that the resolver recognises: the structured identifier
  (prefix \<open>arn:aws\<close>, at least three \<open>/\<close>-separated segments, and a sixth
  \<open>:\<close>-separated field holding the resource type), and the pair \<open>cluster|service\<close>
  (exactly two \<open>|\<close>-separated fields).
\<close>

definition structured_identifier_shape :: "string \<Rightarrow> bool" where
  "structured_identifier_shape raw \<longleftrightarrow>
     startswith ''arn:aws'' raw \<and> length (split_on CHR ''/'' raw) \<ge> 3
     \<and> length (split_on CHR '':'' raw) \<ge> 6"

definition pair_shape :: "string \<Rightarrow> bool" where
  "pair_shape raw \<longleftrightarrow> length (split_on CHR ''|'' raw) = 2"

subsection \<open>The handler\<close>

text \<open>\<open>send_notification\<close> catches delivery failures; it is recorded as one call.\<close>

definition send_notification :: "planner_notification \<Rightarrow> planner_call list" where
  "send_notification notification_data = [SendNotification notification_data]"

text \<open>\<open>for entity in affected_entities\<close>: a list gives its elements, a dict its keys, a
  string its characters; anything else is not iterable.\<close>

fun iterate :: "json \<Rightarrow> planner_error + json list" where
  "iterate (JArr xs) = Inr xs"
| "iterate (JObj kvs) = Inr (map (\<lambda>kv. JStr (fst kv)) kvs)"
| "iterate (JStr s) = Inr (map (\<lambda>c. JStr [c]) s)"
| "iterate _ = Inl TypeError"

text \<open>The loop over the affected entities; the last argument is \<open>resource_id\<close>.\<close>

fun process_entities ::
  "library \<Rightarrow> planner_world \<Rightarrow> datetime \<Rightarrow> json \<Rightarrow> json list \<Rightarrow> string option
     \<Rightarrow> (planner_error + string option) \<times> planner_call list" where
  "process_entities L W restart_time test_mode [] resource_id = (Inr resource_id, [])"
| "process_entities L W restart_time test_mode (entity # rest) resource_id =
     (case entity of
        JObj e \<Rightarrow>
          (case dict_get e ''entityValue'' (JStr []) of
             JStr entity_value \<Rightarrow>
               if contains ''ecs'' (lower entity_value) \<or> CHR ''|'' \<in> set entity_value then
                 (case parse_ecs_resource_info W entity_value of
                    ((cluster_name, service_name), calls1) \<Rightarrow>
                      if cluster_name \<noteq> ''unknown-cluster''
                         \<and> service_name \<noteq> ''unknown-service'' then
                        (case create_restart_schedule L W service_name cluster_name
                                service_name restart_time entity_value test_mode of
                           (Inl err, calls2) \<Rightarrow> (Inl err, calls1 @ calls2)
                         | (Inr rule_name, calls2) \<Rightarrow>
                             (case process_entities L W restart_time test_mode rest
                                     (Some (cluster_name @ ''/'' @ service_name)) of
                                (r, calls3) \<Rightarrow> (r, calls1 @ calls2 @ calls3)))
                      else
                        (case process_entities L W restart_time test_mode rest resource_id of
                           (r, calls3) \<Rightarrow> (r, calls1 @ calls3)))
               else process_entities L W restart_time test_mode rest resource_id
           | _ \<Rightarrow> (Inl AttributeError, []))
      | _ \<Rightarrow> (Inl AttributeError, []))"

text \<open>\<open>datetime.fromisoformat(s.replace('Z', '+00:00'))\<close> on an event field.\<close>

definition parse_time :: "library \<Rightarrow> json \<Rightarrow> planner_error + datetime" where
  "parse_time L v =
     (case v of
        JStr s \<Rightarrow> (case fromisoformat L (str_replace ''Z'' ''+00:00'' s) of
                     None \<Rightarrow> Inl ValueError
                   | Some dt \<Rightarrow> Inr dt)
      | _ \<Rightarrow> Inl AttributeError)"

text \<open>The branch of the handler taken when no holiday conflicts. The resource label of the
  notification, a literal with non-ASCII characters in the source, is cut to its ASCII part.\<close>

definition no_action_needed ::
  "planner_world \<Rightarrow> json \<Rightarrow> datetime \<Rightarrow> datetime
     \<Rightarrow> (planner_error + planner_response) \<times> planner_call list" where
  "no_action_needed W test_mode maintenance_start maintenance_end =
     (case days_between maintenance_start (clock_utc W) of
        Inl e \<Rightarrow> (Inl e, [])
      | Inr days \<Rightarrow>
          (Inr \<lparr>p_statusCode = 200, p_body = BodyText ''No holiday conflict detected''\<rparr>,
           send_notification (MaintenanceNotification
             \<lparr>m_action = ''NO_ACTION_NEEDED'', m_resource_id = ''ECS'',
              m_start = maintenance_start, m_end = maintenance_end, m_days_until = days,
              m_severity = ''INFO'', m_holiday_conflict = False, m_test_mode = test_mode,
              m_restart_time = None\<rparr>)))"

text \<open>The branch taken on a conflict.\<close>

definition early_restart ::
  "library \<Rightarrow> planner_world \<Rightarrow> pydict \<Rightarrow> json \<Rightarrow> datetime \<Rightarrow> datetime
     \<Rightarrow> (planner_error + planner_response) \<times> planner_call list" where
  "early_restart L W detail test_mode maintenance_start maintenance_end =
     (case calculate_next_4am (clock_utc W) of
        Inl e \<Rightarrow> (Inl e, [])
      | Inr restart_time \<Rightarrow>
          (case iterate (dict_get detail ''affectedEntities'' (JArr [])) of
             Inl e \<Rightarrow> (Inl e, [])
           | Inr affected_entities \<Rightarrow>
               (case process_entities L W restart_time test_mode affected_entities None of
                  (Inl e, calls) \<Rightarrow> (Inl e, calls)
                | (Inr resource_id, calls) \<Rightarrow>
                    (case days_between maintenance_start (clock_utc W) of
                       Inl e \<Rightarrow> (Inl e, calls)
                     | Inr days \<Rightarrow>
                         (Inr \<lparr>p_statusCode = 200,
                               p_body = BodyProcessed (length affected_entities) restart_time
                                          test_mode\<rparr>,
                          calls @ send_notification (MaintenanceNotification
                            \<lparr>m_action = ''EARLY_RESTART'',
                             m_resource_id = (case resource_id of
                                                None \<Rightarrow> ''unknown'' | Some r \<Rightarrow> r),
                             m_start = maintenance_start, m_end = maintenance_end,
                             m_days_until = days, m_severity = ''HIGH'',
                             m_holiday_conflict = True, m_test_mode = test_mode,
                             m_restart_time = Some restart_time\<rparr>))))))"

text \<open>The \<open>try\<close> body of the planner's \<open>lambda_handler\<close>.\<close>

definition lambda_handler_try ::
  "library \<Rightarrow> planner_world \<Rightarrow> pydict
     \<Rightarrow> (planner_error + planner_response) \<times> planner_call list" where
  "lambda_handler_try L W event =
     (let test_mode = dict_get event ''test_mode'' (JBool False)
      in case dict_get event ''detail'' (JObj []) of
           JObj detail \<Rightarrow>
             (let start_time_str = dict_get detail ''startTime'' JNull;
                  end_time_str = dict_get detail ''endTime'' JNull
              in if \<not> truthy start_time_str \<or> \<not> truthy end_time_str then
                   (Inr \<lparr>p_statusCode = 200,
                         p_body = BodyText ''No maintenance window found''\<rparr>, [])
                 else
                   case parse_time L start_time_str of
                     Inl e \<Rightarrow> (Inl e, [])
                   | Inr maintenance_start \<Rightarrow>
                       (case parse_time L end_time_str of
                          Inl e \<Rightarrow> (Inl e, [])
                        | Inr maintenance_end \<Rightarrow>
                            (case check_holiday_conflict W maintenance_start maintenance_end of
                               (Inl e, calls) \<Rightarrow> (Inl e, calls)
                             | (Inr has_conflict, calls) \<Rightarrow>
                                 (case (if \<not> has_conflict
                                        then no_action_needed W test_mode maintenance_start
                                               maintenance_end
                                        else early_restart L W detail test_mode
                                               maintenance_start maintenance_end) of
                                    (r, calls2) \<Rightarrow> (r, calls @ calls2)))))
         | _ \<Rightarrow> (Inl AttributeError, []))"

text \<open>The planner's \<open>lambda_handler\<close>: the body, and the \<open>except Exception\<close> branch.\<close>

definition lambda_handler_planner ::
  "library \<Rightarrow> planner_world \<Rightarrow> pydict \<Rightarrow> planner_response \<times> planner_call list" where
  "lambda_handler_planner L W event =
     (case lambda_handler_try L W event of
        (Inr response, calls) \<Rightarrow> (response, calls)
      | (Inl e, calls) \<Rightarrow>
          (\<lparr>p_statusCode = 500, p_body = BodyError e\<rparr>,
           calls @ send_notification
                     (ProcessingError e (dict_get event ''test_mode'' (JBool False)))))"

text \<open>Concrete events and service behaviours used to run the executor.\<close>

definition ev_test :: pydict where
  "ev_test = [(''resource_id'', JStr ''checkout-svc''), (''cluster_name'', JStr ''prod-cluster''),
              (''service_name'', JStr ''checkout-svc''), (''rule_name'', JStr ''ecs-restart-r1''),
              (''test_mode'', JBool True)]"

definition ev_live :: pydict where
  "ev_live = [(''resource_id'', JStr ''checkout-svc''), (''cluster_name'', JStr ''prod-cluster''),
              (''service_name'', JStr ''checkout-svc''), (''rule_name'', JStr ''ecs-restart-r1'')]"

definition ev_no_service :: pydict where
  "ev_no_service = [(''resource_id'', JStr ''checkout-svc''),
                    (''cluster_name'', JStr ''prod-cluster'')]"

definition ev_empty_service :: pydict where
  "ev_empty_service = [(''resource_id'', JStr ''checkout-svc''),
                       (''cluster_name'', JStr ''prod-cluster''), (''service_name'', JStr [])]"

fun deploy_ok :: "json \<Rightarrow> json \<Rightarrow> exec_error + string option" where
  "deploy_ok c s = Inr (Some ''ecs-svc/1'')"

fun call_ok :: "json \<Rightarrow> exec_error option" where
  "call_ok r = None"

fun call_denied :: "json \<Rightarrow> exec_error option" where
  "call_denied r = Some (ExternalFailure ''AccessDenied'')"

definition world_ok :: exec_world where
  "world_ok = \<lparr>ecs_update_service = deploy_ok, events_remove_targets = call_ok,
               events_delete_rule = call_ok\<rparr>"

text \<open>Concrete clock readings, windows and service behaviours used to run the planner.\<close>

definition now_0355 :: datetime where
  "now_0355 = mk_datetime 2025 9 30 3 55 0 (Some utc)"

fun no_parameter :: "int \<Rightarrow> ssm_reply" where
  "no_parameter year = ParameterNotFound"

fun accept :: "'a \<Rightarrow> planner_error option" where
  "accept x = None"

fun no_tasks :: "string \<Rightarrow> string \<Rightarrow> task_description list option" where
  "no_tasks cluster task = Some []"

fun no_services :: "string \<Rightarrow> string list option" where
  "no_services cluster = Some []"

definition world_default :: planner_world where
  "world_default =
     \<lparr>clock_utc = now_0355, ssm_get_parameter = no_parameter, ssm_put_parameter = accept,
      ecs_describe_tasks = no_tasks, ecs_list_services = no_services,
      events_put_rule = accept,
      restart_executor_arn = Some ''arn:aws:lambda:us-east-1:111:function:restart-executor'',
      events_put_targets = accept\<rparr>"

text \<open>The window 2025-10-02T00:00Z to 2025-10-03T00:00Z, and 2025-06-01 to 2025-06-02.\<close>

definition oct2_start :: datetime where "oct2_start = mk_datetime 2025 10 2 0 0 0 (Some utc)"
definition oct2_end :: datetime where "oct2_end = mk_datetime 2025 10 3 0 0 0 (Some utc)"
definition jun1_start :: datetime where "jun1_start = mk_datetime 2025 6 1 0 0 0 (Some utc)"
definition jun1_end :: datetime where "jun1_end = mk_datetime 2025 6 2 0 0 0 (Some utc)"

text \<open>The window 2025-10-08T16:00:00 to 2025-10-08T17:00:00, written without a zone.\<close>

definition naive_start :: datetime where "naive_start = mk_datetime 2025 10 8 16 0 0 None"
definition naive_end :: datetime where "naive_end = mk_datetime 2025 10 8 17 0 0 None"

text \<open>A parameter store holding, for every year, two dates written without a zone.\<close>

fun stored_naive :: "int \<Rightarrow> ssm_reply" where
  "stored_naive year =
     ParameterFound (mk_datetime 2025 1 28 0 0 0 None) (mk_datetime 2025 2 4 23 59 59 None)"

fun stored_start_china :: "int \<Rightarrow> ssm_reply" where
  "stored_start_china year =
     ParameterFound (replace_tzinfo (mk_datetime 2025 1 28 0 0 0 None) china_tz)
                    (mk_datetime 2025 2 4 23 59 59 None)"

fun stored_end_china :: "int \<Rightarrow> ssm_reply" where
  "stored_end_china year =
     ParameterFound (mk_datetime 2025 1 28 0 0 0 None)
                    (replace_tzinfo (mk_datetime 2025 2 4 23 59 59 None) china_tz)"

definition world_naive :: planner_world where
  "world_naive = world_default\<lparr>ssm_get_parameter := stored_naive\<rparr>"

definition world_start_china :: planner_world where
  "world_start_china = world_default\<lparr>ssm_get_parameter := stored_start_china\<rparr>"

definition world_end_china :: planner_world where
  "world_end_china = world_default\<lparr>ssm_get_parameter := stored_end_china\<rparr>"

text \<open>
  A library whose MD5 gives the digest of the identifier used below (and a constant elsewhere)
  and whose ISO-8601 reader knows two strings.
\<close>

definition checkout_arn :: string where
  "checkout_arn = ''arn:aws:ecs:us-east-1:111:service/prod-cluster/checkout-svc''"

fun md5_table :: "string \<Rightarrow> string" where
  "md5_table s = (if s = ''arn:aws:ecs:us-east-1:111:service/prod-cluster/checkout-svc''
                  then ''076b6842545341c96e2c440501c23710''
                  else ''00000000000000000000000000000000'')"

fun iso_table :: "string \<Rightarrow> datetime option" where
  "iso_table s =
     (if s = ''2025-10-02T00:00:00+00:00'' then Some (mk_datetime 2025 10 2 0 0 0 (Some 0))
      else if s = ''2025-10-03T00:00:00+00:00'' then Some (mk_datetime 2025 10 3 0 0 0 (Some 0))
      else None)"

definition library_table :: library where
  "library_table = \<lparr>md5_hexdigest = md5_table, fromisoformat = iso_table\<rparr>"


text \<open>A planner event whose detail has an end time but no start time.\<close>

definition ev_no_start :: pydict where
  "ev_no_start = [(''detail'', JObj [(''endTime'', JStr ''2025-10-03T00:00:00Z'')])]"

text \<open>A planner event for the window 2025-10-02T00:00Z to 2025-10-03T00:00Z with one affected
  service, in test mode.\<close>

definition ev_oct2 :: pydict where
  "ev_oct2 =
     [(''test_mode'', JBool True),
      (''detail'', JObj [(''startTime'', JStr ''2025-10-02T00:00:00Z''),
                        (''endTime'', JStr ''2025-10-03T00:00:00Z''),
                        (''affectedEntities'',
                         JArr [JObj [(''entityValue'',
                           JStr ''arn:aws:ecs:us-east-1:111:service/prod-cluster/checkout-svc'')]])])]"

section \<open>Properties of the restart executor\<close>

lemma executor_failed_path:
  "\<not> (truthy (dict_get event ''resource_id'' JNull) \<and> truthy (dict_get event ''cluster_name'' JNull)
      \<and> truthy (dict_get event ''service_name'' JNull)) \<Longrightarrow>
   lambda_handler_executor W event = executor_except event MissingParameters"
  by (simp add: lambda_handler_executor_def Let_def)

lemma executor_except_shape:
  "\<exists>n. snd (executor_except event e) = [RestartNotification n] \<and> n_status n = ''FAILED''
       \<and> statusCode (fst (executor_except event e)) = 500"
  by (simp add: executor_except_def send_restart_notification_def)

text \<open>
  C3 as stated fails: in test mode the notification carries the status \<open>SUCCESS\<close>, not
  \<open>TEST_SUCCESS\<close>; the handler maps both \<open>success\<close> and \<open>test_success\<close> of the result
  to \<open>SUCCESS\<close>.
\<close>

theorem executor_test_mode_status_counterexample:
  "map n_status (notifications (snd (lambda_handler_executor world_ok ev_test)))
     \<noteq> [''TEST_SUCCESS'']"
  by (simp add: lambda_handler_executor_def send_restart_notification_def Let_def
      ev_test_def dict_get_def)

text \<open>
  C3 (amended): when the executor is invoked with a true \<open>test_mode\<close> and the three required
  fields present, the only external call it makes is one outcome notification (so no restart
  call and no schedule-delete call); the notified status is \<open>SUCCESS\<close>, the notification
  carries the \<open>test_mode\<close> flag and a result whose own status is \<open>test_success\<close>, and the
  response has status code 200.
\<close>

theorem executor_test_mode:
  assumes "truthy (dict_get event ''test_mode'' (JBool False))"
      and "truthy (dict_get event ''resource_id'' JNull)"
      and "truthy (dict_get event ''cluster_name'' JNull)"
      and "truthy (dict_get event ''service_name'' JNull)"
  shows "\<exists>n r. snd (lambda_handler_executor W event) = [RestartNotification n]
             \<and> n_status n = ''SUCCESS''
             \<and> n_test_mode n = dict_get event ''test_mode'' (JBool False)
             \<and> n_result n = Some r \<and> r_status r = ''test_success''
             \<and> statusCode (fst (lambda_handler_executor W event)) = 200"
  using assms
  by (simp add: lambda_handler_executor_def send_restart_notification_def Let_def)

theorem executor_test_mode_witness:
  "truthy (dict_get ev_test ''test_mode'' (JBool False))
   \<and> truthy (dict_get ev_test ''resource_id'' JNull)
   \<and> truthy (dict_get ev_test ''cluster_name'' JNull)
   \<and> truthy (dict_get ev_test ''service_name'' JNull)
   \<and> (\<exists>n r. snd (lambda_handler_executor world_ok ev_test) = [RestartNotification n]
             \<and> n_status n = ''SUCCESS''
             \<and> n_test_mode n = dict_get ev_test ''test_mode'' (JBool False)
             \<and> n_result n = Some r \<and> r_status r = ''test_success''
             \<and> statusCode (fst (lambda_handler_executor world_ok ev_test)) = 200)"
proof -
  have h: "truthy (dict_get ev_test ''test_mode'' (JBool False))"
          "truthy (dict_get ev_test ''resource_id'' JNull)"
          "truthy (dict_get ev_test ''cluster_name'' JNull)"
          "truthy (dict_get ev_test ''service_name'' JNull)"
    by (simp_all add: ev_test_def dict_get_def)
  from executor_test_mode [OF h, of world_ok] h show ?thesis by blast
qed

text \<open>
  C4: whenever the executor makes a cleanup call (\<open>remove_targets\<close> or \<open>delete_rule\<close>),
  the event carries a rule name, the call is on that rule, and a restart call comes earlier
  in the same invocation; and whatever the two cleanup calls answer (success or an
  exception), the response and the notified outcome are the same.
\<close>

theorem cleanup_guarded_and_swallowed:
  "(\<forall>pre c post. snd (lambda_handler_executor W event) = pre @ c # post \<and> is_cleanup_call c
      \<longrightarrow> truthy (dict_get event ''rule_name'' JNull)
          \<and> (c = RemoveTargets (dict_get event ''rule_name'' JNull)
             \<or> c = DeleteRule (dict_get event ''rule_name'' JNull))
          \<and> (\<exists>r \<in> set pre. is_restart_call r))
   \<and> fst (lambda_handler_executor
            (W\<lparr>events_remove_targets := rt, events_delete_rule := dr\<rparr>) event)
       = fst (lambda_handler_executor W event)
   \<and> notifications (snd (lambda_handler_executor
            (W\<lparr>events_remove_targets := rt, events_delete_rule := dr\<rparr>) event))
       = notifications (snd (lambda_handler_executor W event))"
proof (intro conjI allI impI)
  fix pre c post
  assume a: "snd (lambda_handler_executor W event) = pre @ c # post \<and> is_cleanup_call c"
  from a show "truthy (dict_get event ''rule_name'' JNull)"
    by (auto simp: lambda_handler_executor_def executor_except_def
        send_restart_notification_def restart_ecs_service_def cleanup_rule_def Let_def
        Cons_eq_append_conv append_eq_Cons_conv split: if_splits sum.splits option.splits)
  from a show "c = RemoveTargets (dict_get event ''rule_name'' JNull)
             \<or> c = DeleteRule (dict_get event ''rule_name'' JNull)"
    by (auto simp: lambda_handler_executor_def executor_except_def
        send_restart_notification_def restart_ecs_service_def cleanup_rule_def Let_def
        Cons_eq_append_conv append_eq_Cons_conv split: if_splits sum.splits option.splits)
  from a show "\<exists>r \<in> set pre. is_restart_call r"
    by (auto simp: lambda_handler_executor_def executor_except_def
        send_restart_notification_def restart_ecs_service_def cleanup_rule_def Let_def
        Cons_eq_append_conv append_eq_Cons_conv split: if_splits sum.splits option.splits)
next
  show "fst (lambda_handler_executor
            (W\<lparr>events_remove_targets := rt, events_delete_rule := dr\<rparr>) event)
       = fst (lambda_handler_executor W event)"
    by (simp add: lambda_handler_executor_def executor_except_def restart_ecs_service_def
        Let_def split: sum.splits)
next
  show "notifications (snd (lambda_handler_executor
            (W\<lparr>events_remove_targets := rt, events_delete_rule := dr\<rparr>) event))
       = notifications (snd (lambda_handler_executor W event))"
    by (simp add: lambda_handler_executor_def executor_except_def restart_ecs_service_def
        send_restart_notification_def cleanup_rule_def Let_def split: sum.splits option.splits)
qed

theorem cleanup_guarded_and_swallowed_witness:
  "snd (lambda_handler_executor world_ok ev_live)
     = [UpdateService (JStr ''prod-cluster'') (JStr ''checkout-svc'')]
       @ RemoveTargets (JStr ''ecs-restart-r1'') # tl (tl (snd (lambda_handler_executor world_ok ev_live)))
   \<and> is_cleanup_call (RemoveTargets (JStr ''ecs-restart-r1''))
   \<and> truthy (dict_get ev_live ''rule_name'' JNull)
   \<and> (\<exists>r \<in> set [UpdateService (JStr ''prod-cluster'') (JStr ''checkout-svc'')]. is_restart_call r)
   \<and> map n_status (notifications (snd (lambda_handler_executor
          (world_ok\<lparr>events_remove_targets := call_denied, events_delete_rule := call_denied\<rparr>)
          ev_live))) = [''SUCCESS'']"
proof -
  have t: "snd (lambda_handler_executor world_ok ev_live)
     = [UpdateService (JStr ''prod-cluster'') (JStr ''checkout-svc'')]
       @ RemoveTargets (JStr ''ecs-restart-r1'') # tl (tl (snd (lambda_handler_executor world_ok ev_live)))"
    by (simp add: lambda_handler_executor_def restart_ecs_service_def cleanup_rule_def
        send_restart_notification_def world_ok_def ev_live_def dict_get_def Let_def)
  have n: "map n_status (notifications (snd (lambda_handler_executor world_ok ev_live)))
             = [''SUCCESS'']"
    by (simp add: lambda_handler_executor_def restart_ecs_service_def cleanup_rule_def
        send_restart_notification_def world_ok_def ev_live_def dict_get_def Let_def)
  note main = cleanup_guarded_and_swallowed [of world_ok ev_live call_denied call_denied]
  from main t have "truthy (dict_get ev_live ''rule_name'' JNull)
      \<and> (\<exists>r \<in> set [UpdateService (JStr ''prod-cluster'') (JStr ''checkout-svc'')]. is_restart_call r)"
    by (metis is_cleanup_call.simps(1))
  moreover from main n have "map n_status (notifications (snd (lambda_handler_executor
          (world_ok\<lparr>events_remove_targets := call_denied, events_delete_rule := call_denied\<rparr>)
          ev_live))) = [''SUCCESS'']"
    by simp
  ultimately show ?thesis using t by simp
qed

text \<open>
  C8: when \<open>resource_id\<close>, \<open>cluster_name\<close> or \<open>service_name\<close> is missing from the event,
  the executor makes exactly one external call, a notification with status \<open>FAILED\<close> (so no
  restart call), and answers with status code 500.
\<close>

theorem executor_missing_field_fails:
  assumes "map_of event ''resource_id'' = None \<or> map_of event ''cluster_name'' = None
           \<or> map_of event ''service_name'' = None"
  shows "(\<exists>n. snd (lambda_handler_executor W event) = [RestartNotification n]
              \<and> n_status n = ''FAILED'')
         \<and> list_all (\<lambda>c. \<not> is_restart_call c) (snd (lambda_handler_executor W event))
         \<and> statusCode (fst (lambda_handler_executor W event)) = 500"
proof -
  from assms have "\<not> (truthy (dict_get event ''resource_id'' JNull)
      \<and> truthy (dict_get event ''cluster_name'' JNull)
      \<and> truthy (dict_get event ''service_name'' JNull))"
    by (auto simp: dict_get_def)
  then have "lambda_handler_executor W event = executor_except event MissingParameters"
    by (rule executor_failed_path)
  with executor_except_shape [of event MissingParameters] show ?thesis by auto
qed

theorem executor_missing_field_fails_witness:
  "(map_of ev_no_service ''resource_id'' = None \<or> map_of ev_no_service ''cluster_name'' = None
      \<or> map_of ev_no_service ''service_name'' = None)
   \<and> (\<exists>n. snd (lambda_handler_executor world_ok ev_no_service) = [RestartNotification n]
              \<and> n_status n = ''FAILED'')
   \<and> list_all (\<lambda>c. \<not> is_restart_call c) (snd (lambda_handler_executor world_ok ev_no_service))
   \<and> statusCode (fst (lambda_handler_executor world_ok ev_no_service)) = 500"
proof -
  have h: "map_of ev_no_service ''resource_id'' = None
      \<or> map_of ev_no_service ''cluster_name'' = None
      \<or> map_of ev_no_service ''service_name'' = None"
    by (simp add: ev_no_service_def)
  from executor_missing_field_fails [OF h, of world_ok] h show ?thesis by blast
qed

text \<open>
  C10: a required field that is present but equal to the empty string is treated like an
  absent one: one \<open>FAILED\<close> notification, no restart call, status code 500.
\<close>

theorem executor_empty_string_fails:
  assumes "map_of event ''resource_id'' = Some (JStr [])
           \<or> map_of event ''cluster_name'' = Some (JStr [])
           \<or> map_of event ''service_name'' = Some (JStr [])"
  shows "(\<exists>n. snd (lambda_handler_executor W event) = [RestartNotification n]
              \<and> n_status n = ''FAILED'')
         \<and> list_all (\<lambda>c. \<not> is_restart_call c) (snd (lambda_handler_executor W event))
         \<and> statusCode (fst (lambda_handler_executor W event)) = 500"
proof -
  from assms have "\<not> (truthy (dict_get event ''resource_id'' JNull)
      \<and> truthy (dict_get event ''cluster_name'' JNull)
      \<and> truthy (dict_get event ''service_name'' JNull))"
    by (auto simp: dict_get_def)
  then have "lambda_handler_executor W event = executor_except event MissingParameters"
    by (rule executor_failed_path)
  with executor_except_shape [of event MissingParameters] show ?thesis by auto
qed

theorem executor_empty_string_fails_witness:
  "(map_of ev_empty_service ''resource_id'' = Some (JStr [])
      \<or> map_of ev_empty_service ''cluster_name'' = Some (JStr [])
      \<or> map_of ev_empty_service ''service_name'' = Some (JStr []))
   \<and> (\<exists>n. snd (lambda_handler_executor world_ok ev_empty_service) = [RestartNotification n]
              \<and> n_status n = ''FAILED'')
   \<and> list_all (\<lambda>c. \<not> is_restart_call c) (snd (lambda_handler_executor world_ok ev_empty_service))
   \<and> statusCode (fst (lambda_handler_executor world_ok ev_empty_service)) = 500"
proof -
  have h: "map_of ev_empty_service ''resource_id'' = Some (JStr [])
      \<or> map_of ev_empty_service ''cluster_name'' = Some (JStr [])
      \<or> map_of ev_empty_service ''service_name'' = Some (JStr [])"
    by (simp add: ev_empty_service_def)
  from executor_empty_string_fails [OF h, of world_ok] h show ?thesis by blast
qed

section \<open>Properties of the restart-time calculation\<close>

lemma day_split:
  fixes dt :: datetime
  shows "wall dt = (wall dt div us_per_day) * us_per_day + hour_of dt * us_per_hour
             + minute_of dt * us_per_minute + wall dt mod us_per_minute"
    and "0 \<le> hour_of dt"
    and "0 \<le> minute_of dt" and "minute_of dt \<le> 59"
    and "0 \<le> wall dt mod us_per_minute" and "wall dt mod us_per_minute < us_per_minute"
proof -
  define w where "w = wall dt"
  define r where "r = w mod 86400000000"
  define s where "s = w mod 3600000000"
  have r: "0 \<le> r" "r < 86400000000" by (simp_all add: r_def)
  have s: "0 \<le> s" "s < 3600000000" by (simp_all add: s_def)
  have rs: "r mod 3600000000 = s"
    unfolding r_def s_def by (rule mod_mod_cancel) simp
  have sm: "s mod 60000000 = w mod 60000000"
    unfolding s_def by (rule mod_mod_cancel) simp
  have 1: "w = (w div 86400000000) * 86400000000 + r" by (simp add: r_def)
  have 2: "r = (r div 3600000000) * 3600000000 + s" using rs by (metis div_mult_mod_eq)
  have 3: "s = (s div 60000000) * 60000000 + w mod 60000000" using sm by (metis div_mult_mod_eq)
  show "wall dt = (wall dt div us_per_day) * us_per_day + hour_of dt * us_per_hour
             + minute_of dt * us_per_minute + wall dt mod us_per_minute"
    using 1 2 3
    by (simp add: hour_of_def minute_of_def us_per_day_def us_per_hour_def us_per_minute_def
        w_def [symmetric] r_def [symmetric] s_def [symmetric])
  show "0 \<le> hour_of dt"
    using r by (simp add: hour_of_def us_per_day_def us_per_hour_def w_def [symmetric] r_def [symmetric])
  show "0 \<le> minute_of dt"
    using s by (simp add: minute_of_def us_per_hour_def us_per_minute_def w_def [symmetric] s_def [symmetric])
  show "minute_of dt \<le> 59"
    using s by (simp add: minute_of_def us_per_hour_def us_per_minute_def w_def [symmetric] s_def [symmetric])
  show "0 \<le> wall dt mod us_per_minute" "wall dt mod us_per_minute < us_per_minute"
    by (simp_all add: us_per_minute_def)
qed

lemma calculate_next_4am_cases:
  "calculate_next_4am now =
     (let roll = (4 \<le> hour_of now \<or> (hour_of now = 3 \<and> 50 \<le> minute_of now));
          w = (wall now div us_per_day + (if roll then 1 else 0)) * us_per_day + 4 * us_per_hour
      in if roll \<and> \<not> (0 \<le> w \<and> w < max_ordinal * us_per_day) then Inl OverflowError
         else Inr (now\<lparr>wall := w\<rparr>))"
  by (simp add: calculate_next_4am_def add_days_def Let_def algebra_simps)

text \<open>
  C5: for a clock reading \<open>now\<close> before the last representable day,
  \<open>calculate_next_4am\<close> returns 04:00:00 of the next day when the hour of \<open>now\<close> is at
  least 4, or is 3 with a minute of at least 50, and 04:00:00 of the same day otherwise; the
  returned time is at least ten minutes after \<open>now\<close>.
\<close>

theorem next_4am_guard:
  assumes "0 \<le> wall now" and "wall now < (max_ordinal - 1) * us_per_day"
  shows "\<exists>t. calculate_next_4am now = Inr t
           \<and> tzinfo t = tzinfo now
           \<and> wall t = (wall now div us_per_day
                        + (if 4 \<le> hour_of now \<or> (hour_of now = 3 \<and> 50 \<le> minute_of now)
                           then 1 else 0)) * us_per_day + 4 * us_per_hour
           \<and> 10 * us_per_minute \<le> utc_instant t - utc_instant now"
proof -
  define d where "d = wall now div us_per_day"
  define h where "h = hour_of now"
  define m where "m = minute_of now"
  define u where "u = wall now mod us_per_minute"
  define roll where "roll \<longleftrightarrow> 4 \<le> h \<or> (h = 3 \<and> 50 \<le> m)"
  define w where "w = (d + (if roll then 1 else 0)) * us_per_day + 4 * us_per_hour"
  have split: "wall now = d * 86400000000 + h * 3600000000 + m * 60000000 + u"
    using day_split(1) [of now]
    by (simp add: d_def h_def m_def u_def us_per_day_def us_per_hour_def us_per_minute_def)
  have bounds: "0 \<le> h" "0 \<le> m" "m \<le> 59" "0 \<le> u" "u < 60000000"
    using day_split(2-6) [of now] by (simp_all add: h_def m_def u_def us_per_minute_def)
  have a: "0 \<le> wall now" "wall now < 3652058 * 86400000000"
    using assms by (simp_all add: max_ordinal_def us_per_day_def)
  have hhi: "h \<le> 23"
    using day_split(1) [of now]
    by (simp add: h_def hour_of_def us_per_day_def us_per_hour_def)
  have d: "0 \<le> d" "d \<le> 3652057"
    using a by (simp_all add: d_def us_per_day_def)
  have wv: "w = (d + (if roll then 1 else 0)) * 86400000000 + 14400000000"
    by (simp add: w_def us_per_day_def us_per_hour_def)
  have range: "0 \<le> w \<and> w < max_ordinal * us_per_day"
    using d wv by (auto simp: max_ordinal_def us_per_day_def)
  have res: "calculate_next_4am now = Inr (now\<lparr>wall := w\<rparr>)"
    using range
    by (simp add: calculate_next_4am_cases Let_def w_def d_def roll_def h_def m_def)
  have gap: "600000000 \<le> w - wall now"
  proof (cases roll)
    case True
    then show ?thesis using wv split bounds hhi by simp
  next
    case False
    then have "h \<le> 2 \<or> (h = 3 \<and> m \<le> 49)" by (auto simp: roll_def)
    then show ?thesis using False wv split bounds by auto
  qed
  have inst: "utc_instant (now\<lparr>wall := w\<rparr>) - utc_instant now = w - wall now"
    by (simp add: utc_instant_def utcoffset_def)
  show ?thesis
    using res gap inst
    by (simp add: w_def d_def roll_def h_def m_def us_per_minute_def)
qed

lemma now_0355_wall: "wall now_0355 = 63894801300000000"
  by (simp add: now_0355_def mk_datetime_def ymd2ord_def days_before_year_def
      days_before_month_def is_leap_def us_per_day_def us_per_hour_def us_per_minute_def
      us_per_second_def Let_def)

theorem next_4am_guard_witness:
  "0 \<le> wall now_0355 \<and> wall now_0355 < (max_ordinal - 1) * us_per_day
   \<and> (\<exists>t. calculate_next_4am now_0355 = Inr t
           \<and> tzinfo t = tzinfo now_0355
           \<and> wall t = (wall now_0355 div us_per_day
                        + (if 4 \<le> hour_of now_0355
                              \<or> (hour_of now_0355 = 3 \<and> 50 \<le> minute_of now_0355)
                           then 1 else 0)) * us_per_day + 4 * us_per_hour
           \<and> 10 * us_per_minute \<le> utc_instant t - utc_instant now_0355)"
proof -
  have h: "0 \<le> wall now_0355" "wall now_0355 < (max_ordinal - 1) * us_per_day"
    by (simp_all add: now_0355_wall max_ordinal_def us_per_day_def)
  from next_4am_guard [OF h] h show ?thesis by blast
qed


section \<open>Properties of the blackout catalogue and the overlap check\<close>

lemma year_arith:
  fixes m :: int
  assumes "0 \<le> m" "m \<le> 3652058"
    and "m = 146097 * q400 + a" "0 \<le> a" "a < 146097"
    and "a = 36524 * q100 + b" "0 \<le> b" "b < 36524"
    and "b = 1461 * q4 + c" "0 \<le> c" "c < 1461"
    and "c = 365 * q1 + d" "0 \<le> d" "d < 365"
  shows "1 \<le> (if q1 = 4 \<or> q100 = 4 then q400 * 400 + 1 + q100 * 100 + q4 * 4 + q1 - 1
               else q400 * 400 + 1 + q100 * 100 + q4 * 4 + q1)
         \<and> (if q1 = 4 \<or> q100 = 4 then q400 * 400 + 1 + q100 * 100 + q4 * 4 + q1 - 1
               else q400 * 400 + 1 + q100 * 100 + q4 * 4 + q1) \<le> 9999"
proof -
  have q400: "0 \<le> q400" "q400 \<le> 24" using assms(1-5) by arith+
  have q100: "0 \<le> q100" "q100 \<le> 4" using assms(4-8) by arith+
  have q4: "0 \<le> q4" "q4 \<le> 24" using assms(7-11) by arith+
  have q1: "0 \<le> q1" "q1 \<le> 4" using assms(10-14) by arith+
  have lo: "1 \<le> (if q1 = 4 \<or> q100 = 4 then q400 * 400 + 1 + q100 * 100 + q4 * 4 + q1 - 1
               else q400 * 400 + 1 + q100 * 100 + q4 * 4 + q1)"
    using q400 q100 q4 q1 by auto
  have hi: "q400 * 400 + 1 + q100 * 100 + q4 * 4 + q1 \<le> 9999"
  proof (cases "q400 \<le> 23")
    case True
    then show ?thesis using q100 q4 q1 by linarith
  next
    case False
    then have e400: "q400 = 24" using q400 by linarith
    then have a: "a \<le> 145730" using assms(2,3) by linarith
    then have q100': "q100 \<le> 3" using assms(6,7) by linarith
    show ?thesis
    proof (cases "q100 \<le> 2")
      case True
      then show ?thesis using e400 q4 q1 by linarith
    next
      case False
      then have e100: "q100 = 3" using q100' by linarith
      then have b: "b \<le> 36158" using a assms(6) by linarith
      show ?thesis
      proof (cases "q4 \<le> 23")
        case True
        then show ?thesis using e400 e100 q1 by linarith
      next
        case False
        then have e4: "q4 = 24" using q4 by linarith
        then have "c \<le> 1094" using b assms(9) by linarith
        then have "q1 \<le> 2" using assms(12,13) by linarith
        then show ?thesis using e400 e100 e4 by linarith
      qed
    qed
  qed
  from lo hi show ?thesis by auto
qed

lemma ord2year_bounds:
  assumes "1 \<le> n" "n \<le> 3652059"
  shows "1 \<le> ord2year n \<and> ord2year n \<le> 9999"
proof -
  define m where "m = n - 1"
  define a where "a = m mod 146097"
  define b where "b = a mod 36524"
  define c where "c = b mod 1461"
  have "ord2year n = (if c div 365 = 4 \<or> a div 36524 = 4
           then (m div 146097) * 400 + 1 + (a div 36524) * 100 + (b div 1461) * 4 + c div 365 - 1
           else (m div 146097) * 400 + 1 + (a div 36524) * 100 + (b div 1461) * 4 + c div 365)"
    by (simp add: ord2year_def Let_def m_def a_def b_def c_def)
  moreover have "1 \<le> (if c div 365 = 4 \<or> a div 36524 = 4
           then (m div 146097) * 400 + 1 + (a div 36524) * 100 + (b div 1461) * 4 + c div 365 - 1
           else (m div 146097) * 400 + 1 + (a div 36524) * 100 + (b div 1461) * 4 + c div 365)
       \<and> (if c div 365 = 4 \<or> a div 36524 = 4
           then (m div 146097) * 400 + 1 + (a div 36524) * 100 + (b div 1461) * 4 + c div 365 - 1
           else (m div 146097) * 400 + 1 + (a div 36524) * 100 + (b div 1461) * 4 + c div 365) \<le> 9999"
  proof (rule year_arith [where d = "c mod 365"])
    show "0 \<le> m" "m \<le> 3652058" using assms by (simp_all add: m_def)
    show "m = 146097 * (m div 146097) + a" by (simp add: a_def)
    show "0 \<le> a" "a < 146097" by (simp_all add: a_def)
    show "a = 36524 * (a div 36524) + b" by (simp add: b_def)
    show "0 \<le> b" "b < 36524" by (simp_all add: b_def)
    show "b = 1461 * (b div 1461) + c" by (simp add: c_def)
    show "0 \<le> c" "c < 1461" by (simp_all add: c_def)
    show "c = 365 * (c div 365) + c mod 365" by simp
    show "0 \<le> c mod 365" "c mod 365 < 365" by simp_all
  qed
  ultimately show ?thesis by simp
qed

lemma days_before_year_bounds:
  assumes "1 \<le> y" "y \<le> 9999"
  shows "0 \<le> days_before_year y \<and> days_before_year y \<le> 3651695"
proof -
  define z where "z = y - 1"
  define q4 where "q4 = z div 4"
  define q100 where "q100 = z div 100"
  define q400 where "q400 = z div 400"
  have z: "0 \<le> z" "z \<le> 9998" using assms by (simp_all add: z_def)
  have a: "0 \<le> q4" "4 * q4 \<le> z" using z by (simp_all add: q4_def)
  have b: "100 * q100 \<le> z" "z < 100 * q100 + 100" unfolding q100_def by presburger+
  have c: "0 \<le> q400" "400 * q400 \<le> z" using z by (simp_all add: q400_def)
  have "days_before_year y = z * 365 + q4 - q100 + q400"
    by (simp add: days_before_year_def z_def Let_def q4_def q100_def q400_def)
  moreover have "0 \<le> z * 365 + q4 - q100 + q400" using z a b c by linarith
  moreover have "z * 365 + q4 - q100 + q400 \<le> 3651695" using z a b c by linarith
  ultimately show ?thesis by simp
qed


lemma year_of_bounds:
  assumes "valid_datetime dt"
  shows "1 \<le> year_of dt \<and> year_of dt \<le> 9999"
proof -
  have w: "0 \<le> wall dt" "wall dt < 3652059 * 86400000000"
    using assms by (simp_all add: valid_datetime_def max_ordinal_def us_per_day_def)
  have "0 \<le> wall dt div 86400000000" using w by simp
  moreover have "wall dt div 86400000000 < 3652059" using w by simp
  ultimately show ?thesis
    unfolding year_of_def us_per_day_def by (intro ord2year_bounds) simp_all
qed

text \<open>A local time of UTC+8 between the second day of a year and its day 364 converts to UTC
  without leaving the representable range.\<close>

lemma astimezone_utc_china:
  assumes y: "1 \<le> y" "y \<le> 9999"
    and k: "2 \<le> days_before_month y m + d" "days_before_month y m + d \<le> 364"
    and t: "0 \<le> h * us_per_hour + mi * us_per_minute + s * us_per_second"
           "h * us_per_hour + mi * us_per_minute + s * us_per_second < us_per_day"
  shows "astimezone_utc (mk_datetime y m d h mi s (Some china_tz))
         = Inr \<lparr>wall = wall (mk_datetime y m d h mi s (Some china_tz)) - china_tz,
                tzinfo = Some utc\<rparr>"
proof -
  define X where "X = mk_datetime y m d h mi s (Some china_tz)"
  define j where "j = days_before_year y + (days_before_month y m + d) - 1"
  define t where "t = h * us_per_hour + mi * us_per_minute + s * us_per_second"
  have j: "1 \<le> j" "j \<le> 3652058"
    using days_before_year_bounds [OF y] k by (simp_all add: j_def)
  have tb: "0 \<le> t" "t < 86400000000" using t by (simp_all add: t_def us_per_day_def)
  have wX: "wall X = j * 86400000000 + t"
    by (simp add: X_def mk_datetime_def ymd2ord_def j_def t_def us_per_day_def algebra_simps)
  have oX: "utcoffset X = 28800000000"
    by (simp add: X_def mk_datetime_def utcoffset_def china_tz_def us_per_hour_def)
  have lo: "0 \<le> wall X - utcoffset X" unfolding wX oX using j tb by linarith
  have hi: "wall X - utcoffset X < 3652059 * 86400000000" unfolding wX oX using j tb by linarith
  have "astimezone_utc X = Inr \<lparr>wall = wall X - china_tz, tzinfo = Some utc\<rparr>"
    unfolding astimezone_utc_def Let_def max_ordinal_def us_per_day_def
    using lo hi by (simp add: oX china_tz_def us_per_hour_def)
  then show ?thesis by (simp only: X_def)
qed

lemma days_before_month_10: "days_before_month y 10 = 273 + (if is_leap y then 1 else 0)"
  by (simp add: days_before_month_def)

lemma days_before_month_2: "days_before_month y 2 = 31"
  by (simp add: days_before_month_def)

lemma days_before_month_1: "days_before_month y 1 = 0"
  by (simp add: days_before_month_def)

lemma national_day_ok:
  assumes "1 \<le> y" "y \<le> 9999"
  shows "\<exists>s e. astimezone_utc (mk_datetime y 10 1 0 0 0 (Some china_tz)) = Inr s
             \<and> astimezone_utc (mk_datetime y 10 8 23 59 59 (Some china_tz)) = Inr e
             \<and> tzinfo s = Some utc \<and> tzinfo e = Some utc"
proof -
  have 1: "astimezone_utc (mk_datetime y 10 1 0 0 0 (Some china_tz))
         = Inr \<lparr>wall = wall (mk_datetime y 10 1 0 0 0 (Some china_tz)) - china_tz,
                tzinfo = Some utc\<rparr>"
    by (rule astimezone_utc_china [OF assms])
       (simp_all add: days_before_month_10 us_per_day_def)
  have 2: "astimezone_utc (mk_datetime y 10 8 23 59 59 (Some china_tz))
         = Inr \<lparr>wall = wall (mk_datetime y 10 8 23 59 59 (Some china_tz)) - china_tz,
                tzinfo = Some utc\<rparr>"
    by (rule astimezone_utc_china [OF assms])
       (simp_all add: days_before_month_10 us_per_day_def us_per_hour_def us_per_minute_def
          us_per_second_def)
  show ?thesis using 1 2 by simp
qed

lemma feb_ok:
  assumes "1 \<le> y" "y \<le> 9999" "1 \<le> d" "d \<le> 28"
    and "(h, mi, s) = (0, 0, 0) \<or> (h, mi, s) = (23, 59, 59)"
  shows "\<exists>r. astimezone_utc (mk_datetime y 2 d h mi s (Some china_tz)) = Inr r
             \<and> tzinfo r = Some utc"
proof -
  have "astimezone_utc (mk_datetime y 2 d h mi s (Some china_tz))
         = Inr \<lparr>wall = wall (mk_datetime y 2 d h mi s (Some china_tz)) - china_tz,
                tzinfo = Some utc\<rparr>"
    using assms(3-5)
    by (intro astimezone_utc_china [OF assms(1,2)])
       (auto simp: days_before_month_2 us_per_day_def us_per_hour_def us_per_minute_def
          us_per_second_def)
  then show ?thesis by simp
qed

lemma jan_ok:
  assumes "1 \<le> y" "y \<le> 9999" "2 \<le> d" "d \<le> 31"
    and "(h, mi, s) = (0, 0, 0) \<or> (h, mi, s) = (23, 59, 59)"
  shows "\<exists>r. astimezone_utc (mk_datetime y 1 d h mi s (Some china_tz)) = Inr r
             \<and> tzinfo r = Some utc"
proof -
  have "astimezone_utc (mk_datetime y 1 d h mi s (Some china_tz))
         = Inr \<lparr>wall = wall (mk_datetime y 1 d h mi s (Some china_tz)) - china_tz,
                tzinfo = Some utc\<rparr>"
    using assms(3-5)
    by (intro astimezone_utc_china [OF assms(1,2)])
       (auto simp: days_before_month_1 us_per_day_def us_per_hour_def us_per_minute_def
          us_per_second_def)
  then show ?thesis by simp
qed

lemma default_spring_ok:
  assumes y: "1 \<le> y" "y \<le> 9999"
  shows "\<exists>s e. get_default_spring_festival_dates y = Inr (s, e)
               \<and> tzinfo s = Some utc \<and> tzinfo e = Some utc"
proof -
  consider "y = 2024" | "y = 2025" | "y = 2026" | "y = 2027" | "y = 2028" | "y = 2029"
    | "y = 2030" | "y \<notin> {2024, 2025, 2026, 2027, 2028, 2029, 2030}" by auto
  then show ?thesis
  proof cases
    case 1
    obtain a where a: "astimezone_utc (mk_datetime 2024 2 10 0 0 0 (Some china_tz)) = Inr a"
        "tzinfo a = Some utc" using feb_ok [of 2024 10 0 0 0] by auto
    obtain b where b: "astimezone_utc (mk_datetime 2024 2 17 23 59 59 (Some china_tz)) = Inr b"
        "tzinfo b = Some utc" using feb_ok [of 2024 17 23 59 59] by auto
    show ?thesis using 1 a b by (simp add: get_default_spring_festival_dates_def)
  next
    case 2
    obtain a where a: "astimezone_utc (mk_datetime 2025 1 29 0 0 0 (Some china_tz)) = Inr a"
        "tzinfo a = Some utc" using jan_ok [of 2025 29 0 0 0] by auto
    obtain b where b: "astimezone_utc (mk_datetime 2025 2 5 23 59 59 (Some china_tz)) = Inr b"
        "tzinfo b = Some utc" using feb_ok [of 2025 5 23 59 59] by auto
    show ?thesis using 2 a b by (simp add: get_default_spring_festival_dates_def)
  next
    case 3
    obtain a where a: "astimezone_utc (mk_datetime 2026 2 17 0 0 0 (Some china_tz)) = Inr a"
        "tzinfo a = Some utc" using feb_ok [of 2026 17 0 0 0] by auto
    obtain b where b: "astimezone_utc (mk_datetime 2026 2 24 23 59 59 (Some china_tz)) = Inr b"
        "tzinfo b = Some utc" using feb_ok [of 2026 24 23 59 59] by auto
    show ?thesis using 3 a b by (simp add: get_default_spring_festival_dates_def)
  next
    case 4
    obtain a where a: "astimezone_utc (mk_datetime 2027 2 6 0 0 0 (Some china_tz)) = Inr a"
        "tzinfo a = Some utc" using feb_ok [of 2027 6 0 0 0] by auto
    obtain b where b: "astimezone_utc (mk_datetime 2027 2 13 23 59 59 (Some china_tz)) = Inr b"
        "tzinfo b = Some utc" using feb_ok [of 2027 13 23 59 59] by auto
    show ?thesis using 4 a b by (simp add: get_default_spring_festival_dates_def)
  next
    case 5
    obtain a where a: "astimezone_utc (mk_datetime 2028 1 26 0 0 0 (Some china_tz)) = Inr a"
        "tzinfo a = Some utc" using jan_ok [of 2028 26 0 0 0] by auto
    obtain b where b: "astimezone_utc (mk_datetime 2028 2 2 23 59 59 (Some china_tz)) = Inr b"
        "tzinfo b = Some utc" using feb_ok [of 2028 2 23 59 59] by auto
    show ?thesis using 5 a b by (simp add: get_default_spring_festival_dates_def)
  next
    case 6
    obtain a where a: "astimezone_utc (mk_datetime 2029 2 13 0 0 0 (Some china_tz)) = Inr a"
        "tzinfo a = Some utc" using feb_ok [of 2029 13 0 0 0] by auto
    obtain b where b: "astimezone_utc (mk_datetime 2029 2 20 23 59 59 (Some china_tz)) = Inr b"
        "tzinfo b = Some utc" using feb_ok [of 2029 20 23 59 59] by auto
    show ?thesis using 6 a b by (simp add: get_default_spring_festival_dates_def)
  next
    case 7
    obtain a where a: "astimezone_utc (mk_datetime 2030 2 3 0 0 0 (Some china_tz)) = Inr a"
        "tzinfo a = Some utc" using feb_ok [of 2030 3 0 0 0] by auto
    obtain b where b: "astimezone_utc (mk_datetime 2030 2 10 23 59 59 (Some china_tz)) = Inr b"
        "tzinfo b = Some utc" using feb_ok [of 2030 10 23 59 59] by auto
    show ?thesis using 7 a b by (simp add: get_default_spring_festival_dates_def)
  next
    case 8
    obtain a where a: "astimezone_utc (mk_datetime y 2 1 0 0 0 (Some china_tz)) = Inr a"
        "tzinfo a = Some utc" using feb_ok [OF y, of 1 0 0 0] by auto
    obtain b where b: "astimezone_utc (mk_datetime y 2 8 23 59 59 (Some china_tz)) = Inr b"
        "tzinfo b = Some utc" using feb_ok [OF y, of 8 23 59 59] by auto
    show ?thesis using 8 a b by (simp add: get_default_spring_festival_dates_def)
  qed
qed


lemma astimezone_utc_tz: "astimezone_utc dt = Inr r \<Longrightarrow> tzinfo r = Some utc"
  by (auto simp: astimezone_utc_def Let_def split: if_splits)

lemma spring_festival_ok:
  assumes y: "1 \<le> y" "y \<le> 9999"
  shows "\<exists>s e calls. get_spring_festival_dates W y = (Inr (s, e), calls)
               \<and> tzinfo s = Some utc \<and> tzinfo e = Some utc"
proof -
  obtain ds de where d: "get_default_spring_festival_dates y = Inr (ds, de)"
      "tzinfo ds = Some utc" "tzinfo de = Some utc"
    using default_spring_ok [OF y] by blast
  show ?thesis
  proof (cases "ssm_get_parameter W y")
    case (ParameterFound a b)
    then show ?thesis
      using d
      by (auto simp: get_spring_festival_dates_def Let_def split: sum.splits
          dest: astimezone_utc_tz)
  next
    case ParameterNotFound
    then show ?thesis using d by (simp add: get_spring_festival_dates_def)
  next
    case SsmFailure
    then show ?thesis using d by (simp add: get_spring_festival_dates_def)
  qed
qed

lemma holidays_ok:
  assumes y: "1 \<le> y" "y \<le> 9999"
  shows "\<exists>n1 n2 s e calls. holidays W y = (Inr [(n1, n2), (s, e)], calls)
           \<and> astimezone_utc (mk_datetime y 10 1 0 0 0 (Some china_tz)) = Inr n1
           \<and> astimezone_utc (mk_datetime y 10 8 23 59 59 (Some china_tz)) = Inr n2
           \<and> get_spring_festival_dates W y = (Inr (s, e), calls)
           \<and> tzinfo n1 = Some utc \<and> tzinfo n2 = Some utc
           \<and> tzinfo s = Some utc \<and> tzinfo e = Some utc"
proof -
  obtain n1 n2 where n: "astimezone_utc (mk_datetime y 10 1 0 0 0 (Some china_tz)) = Inr n1"
      "astimezone_utc (mk_datetime y 10 8 23 59 59 (Some china_tz)) = Inr n2"
      "tzinfo n1 = Some utc" "tzinfo n2 = Some utc"
    using national_day_ok [OF y] by blast
  obtain s e calls where s: "get_spring_festival_dates W y = (Inr (s, e), calls)"
      "tzinfo s = Some utc" "tzinfo e = Some utc"
    using spring_festival_ok [OF y] by blast
  show ?thesis using n s by (simp add: holidays_def)
qed

lemma dt_le_aware:
  "tzinfo a \<noteq> None \<Longrightarrow> tzinfo b \<noteq> None \<Longrightarrow> dt_le a b = Inr (utc_instant a \<le> utc_instant b)"
  by (auto simp: dt_le_def utc_instant_def utcoffset_def)

lemma ensure_utc_aware: "tzinfo (ensure_utc dt) \<noteq> None"
  by (simp add: ensure_utc_def replace_tzinfo_def)

lemma ensure_utc_wall: "wall (ensure_utc dt) = wall dt"
  by (simp add: ensure_utc_def replace_tzinfo_def)

lemma loop_overlap:
  assumes "tzinfo ms \<noteq> None" "tzinfo me \<noteq> None"
  shows "check_holiday_conflict_loop ms me B
         = Inr (\<exists>ib \<in> set B. utc_instant ms \<le> utc_instant (ensure_utc (snd ib))
                            \<and> utc_instant (ensure_utc (fst ib)) \<le> utc_instant me)"
proof (induction B)
  case Nil
  show ?case by simp
next
  case (Cons ib B)
  obtain hs he where ib: "ib = (hs, he)" by (cases ib)
  have 1: "dt_le ms (ensure_utc he) = Inr (utc_instant ms \<le> utc_instant (ensure_utc he))"
    by (rule dt_le_aware [OF assms(1) ensure_utc_aware])
  have 2: "dt_le (ensure_utc hs) me = Inr (utc_instant (ensure_utc hs) \<le> utc_instant me)"
    by (rule dt_le_aware [OF ensure_utc_aware assms(2)])
  show ?case
    by (cases "utc_instant ms \<le> utc_instant (ensure_utc he)";
        cases "utc_instant (ensure_utc hs) \<le> utc_instant me")
       (simp_all add: ib 1 2 Cons.IH)
qed

text \<open>
  C1: the loop of the conflict check returns true exactly when some interval of the
  catalogue satisfies \<open>start \<le> ib.end\<close> and \<open>end \<ge> ib.start\<close>, all bounds compared as
  instants of UTC; and for every window whose start is a representable datetime,
  \<open>check_holiday_conflict\<close> returns that answer for the two-entry catalogue it builds from
  the window's start year.
\<close>

theorem holiday_conflict_iff:
  assumes "valid_datetime maintenance_start"
  shows "(\<forall>B. check_holiday_conflict_loop (ensure_utc maintenance_start)
                 (ensure_utc maintenance_end) B
               = Inr (\<exists>ib \<in> set B.
                        utc_instant (ensure_utc maintenance_start)
                          \<le> utc_instant (ensure_utc (snd ib))
                        \<and> utc_instant (ensure_utc maintenance_end)
                          \<ge> utc_instant (ensure_utc (fst ib))))
       \<and> (\<exists>B calls. holidays W (year_of maintenance_start) = (Inr B, calls)
             \<and> length B = 2
             \<and> check_holiday_conflict W maintenance_start maintenance_end
                 = (Inr (\<exists>ib \<in> set B.
                          utc_instant (ensure_utc maintenance_start)
                            \<le> utc_instant (ensure_utc (snd ib))
                          \<and> utc_instant (ensure_utc maintenance_end)
                            \<ge> utc_instant (ensure_utc (fst ib))), calls))"
proof (intro conjI allI)
  fix B
  show "check_holiday_conflict_loop (ensure_utc maintenance_start)
                 (ensure_utc maintenance_end) B
               = Inr (\<exists>ib \<in> set B.
                        utc_instant (ensure_utc maintenance_start)
                          \<le> utc_instant (ensure_utc (snd ib))
                        \<and> utc_instant (ensure_utc maintenance_end)
                          \<ge> utc_instant (ensure_utc (fst ib)))"
    by (rule loop_overlap) (rule ensure_utc_aware)+
next
  have y: "1 \<le> year_of maintenance_start" "year_of maintenance_start \<le> 9999"
    using year_of_bounds [OF assms] by simp_all
  obtain n1 n2 s e calls where
    h: "holidays W (year_of maintenance_start) = (Inr [(n1, n2), (s, e)], calls)"
    using holidays_ok [OF y] by blast
  have "check_holiday_conflict W maintenance_start maintenance_end
          = (check_holiday_conflict_loop (ensure_utc maintenance_start)
               (ensure_utc maintenance_end) [(n1, n2), (s, e)], calls)"
    by (simp add: check_holiday_conflict_def Let_def h)
  also have "check_holiday_conflict_loop (ensure_utc maintenance_start)
               (ensure_utc maintenance_end) [(n1, n2), (s, e)]
      = Inr (\<exists>ib \<in> set [(n1, n2), (s, e)].
                          utc_instant (ensure_utc maintenance_start)
                            \<le> utc_instant (ensure_utc (snd ib))
                          \<and> utc_instant (ensure_utc maintenance_end)
                            \<ge> utc_instant (ensure_utc (fst ib)))"
    by (rule loop_overlap) (rule ensure_utc_aware)+
  finally show "\<exists>B calls. holidays W (year_of maintenance_start) = (Inr B, calls)
             \<and> length B = 2
             \<and> check_holiday_conflict W maintenance_start maintenance_end
                 = (Inr (\<exists>ib \<in> set B.
                          utc_instant (ensure_utc maintenance_start)
                            \<le> utc_instant (ensure_utc (snd ib))
                          \<and> utc_instant (ensure_utc maintenance_end)
                            \<ge> utc_instant (ensure_utc (fst ib))), calls)"
    using h by (intro exI [of _ "[(n1, n2), (s, e)]"] exI [of _ calls]) simp
qed

lemma mk_2025:
  "mk_datetime 2025 m d h mi s tz
     = \<lparr>wall = (739250 + days_before_month 2025 m + d) * 86400000000 + h * 3600000000
               + mi * 60000000 + s * 1000000, tzinfo = tz\<rparr>"
  by (simp add: mk_datetime_def ymd2ord_def days_before_year_def Let_def us_per_day_def
      us_per_hour_def us_per_minute_def us_per_second_def)

lemma dbm_2025: "days_before_month 2025 10 = 273" "days_before_month 2025 6 = 151"
  "days_before_month 2025 2 = 31" "days_before_month 2025 1 = 0"
  by (simp_all add: days_before_month_def is_leap_def)

lemma concrete_windows:
  "oct2_start = \<lparr>wall = 63894960000000000, tzinfo = Some 0\<rparr>"
  "oct2_end = \<lparr>wall = 63895046400000000, tzinfo = Some 0\<rparr>"
  "jun1_start = \<lparr>wall = 63884332800000000, tzinfo = Some 0\<rparr>"
  "jun1_end = \<lparr>wall = 63884419200000000, tzinfo = Some 0\<rparr>"
  "naive_start = \<lparr>wall = 63895536000000000, tzinfo = None\<rparr>"
  "naive_end = \<lparr>wall = 63895539600000000, tzinfo = None\<rparr>"
  by (simp_all add: oct2_start_def oct2_end_def jun1_start_def jun1_end_def naive_start_def
      naive_end_def mk_2025 dbm_2025 utc_def)

lemma concrete_years:
  "year_of oct2_start = 2025" "year_of jun1_start = 2025" "year_of naive_start = 2025"
  by (simp_all add: concrete_windows year_of_def ord2year_def Let_def us_per_day_def)

lemma holidays_2025:
  "holidays world_default 2025
     = (Inr [(\<lparr>wall = 63894844800000000, tzinfo = Some 0\<rparr>,
              \<lparr>wall = 63895535999000000, tzinfo = Some 0\<rparr>),
             (\<lparr>wall = 63873676800000000, tzinfo = Some 0\<rparr>,
              \<lparr>wall = 63874367999000000, tzinfo = Some 0\<rparr>)],
        [SsmGetParameter 2025,
         SsmPutParameter 2025 \<lparr>wall = 63873676800000000, tzinfo = Some 0\<rparr>
           \<lparr>wall = 63874367999000000, tzinfo = Some 0\<rparr>])"
  by (simp add: holidays_def get_spring_festival_dates_def
      get_default_spring_festival_dates_def world_default_def astimezone_utc_def Let_def
      mk_2025 dbm_2025 utcoffset_def china_tz_def utc_def max_ordinal_def us_per_day_def
      us_per_hour_def)

lemma conflict_oct2:
  "fst (check_holiday_conflict world_default oct2_start oct2_end) = Inr True"
  by (simp add: check_holiday_conflict_def Let_def concrete_years holidays_2025)
     (simp add: concrete_windows ensure_utc_def replace_tzinfo_def dt_le_def utc_def)

lemma conflict_jun1:
  "fst (check_holiday_conflict world_default jun1_start jun1_end) = Inr False"
  by (simp add: check_holiday_conflict_def Let_def concrete_years holidays_2025)
     (simp add: concrete_windows ensure_utc_def replace_tzinfo_def dt_le_def utc_def)

text \<open>
  C2 as stated fails for the bounds of the maintenance window: a window written without a
  zone, 2025-10-08T16:00:00 to 17:00:00, does not conflict, while the same window read as
  UTC+8 does (the national holiday ends at 2025-10-08T23:59:59+08:00).
\<close>

theorem naive_window_counterexample:
  "fst (check_holiday_conflict world_default naive_start naive_end) = Inr False
   \<and> fst (check_holiday_conflict world_default (replace_tzinfo naive_start china_tz)
            (replace_tzinfo naive_end china_tz)) = Inr True"
proof -
  have y: "year_of (replace_tzinfo naive_start china_tz) = 2025"
    using concrete_years(3) by (simp add: year_of_def replace_tzinfo_def)
  have 1: "fst (check_holiday_conflict world_default naive_start naive_end) = Inr False"
    by (simp add: check_holiday_conflict_def Let_def concrete_years holidays_2025)
       (simp add: concrete_windows ensure_utc_def replace_tzinfo_def dt_le_def utc_def)
  have 2: "fst (check_holiday_conflict world_default (replace_tzinfo naive_start china_tz)
            (replace_tzinfo naive_end china_tz)) = Inr True"
    by (simp add: check_holiday_conflict_def Let_def y holidays_2025)
       (simp add: concrete_windows ensure_utc_def replace_tzinfo_def dt_le_def utc_def
          china_tz_def us_per_hour_def)
  from 1 2 show ?thesis by simp
qed


lemma holidays_utc:
  assumes "holidays W y = (Inr B, calls)"
  shows "\<forall>ib \<in> set B. tzinfo (fst ib) = Some utc \<and> tzinfo (snd ib) = Some utc"
proof -
  have d: "tzinfo a = Some utc \<and> tzinfo b = Some utc"
    if "get_default_spring_festival_dates y = Inr (a, b)" for a b
    using that
    by (auto simp: get_default_spring_festival_dates_def Let_def
        split: sum.splits option.splits dest: astimezone_utc_tz)
  have s: "tzinfo a = Some utc \<and> tzinfo b = Some utc"
    if "get_spring_festival_dates W y = (Inr (a, b), c)" for a b c
    using that d
    by (auto simp: get_spring_festival_dates_def Let_def
        split: ssm_reply.splits sum.splits dest: astimezone_utc_tz)
  show ?thesis
    using assms s
    by (auto simp: holidays_def split: sum.splits prod.splits dest: astimezone_utc_tz)
qed

theorem holiday_conflict_iff_witness:
  "valid_datetime oct2_start
   \<and> (\<exists>B calls. holidays world_default (year_of oct2_start) = (Inr B, calls)
         \<and> length B = 2
         \<and> check_holiday_conflict world_default oct2_start oct2_end
             = (Inr (\<exists>ib \<in> set B.
                      utc_instant (ensure_utc oct2_start) \<le> utc_instant (ensure_utc (snd ib))
                      \<and> utc_instant (ensure_utc oct2_end)
                          \<ge> utc_instant (ensure_utc (fst ib))), calls))
   \<and> fst (check_holiday_conflict world_default oct2_start oct2_end) = Inr True"
proof -
  have h: "valid_datetime oct2_start"
    by (simp add: valid_datetime_def concrete_windows max_ordinal_def us_per_day_def)
  from holiday_conflict_iff [OF h, of oct2_end world_default] h conflict_oct2
  show ?thesis by blast
qed

lemma default_spring_explicit:
  assumes y: "1 \<le> y" "y \<le> 9999"
  shows "get_default_spring_festival_dates y =
     (case map_of [(2024, ((2, 10), (2, 17))), (2025, ((1, 29), (2, 5))),
                   (2026, ((2, 17), (2, 24))), (2027, ((2, 6), (2, 13))),
                   (2028, ((1, 26), (2, 2))), (2029, ((2, 13), (2, 20))),
                   (2030, ((2, 3), (2, 10)))] y of
        Some ((m1, d1), (m2, d2)) \<Rightarrow>
          Inr (\<lparr>wall = wall (mk_datetime y m1 d1 0 0 0 (Some china_tz)) - china_tz,
                 tzinfo = Some utc\<rparr>,
               \<lparr>wall = wall (mk_datetime y m2 d2 23 59 59 (Some china_tz)) - china_tz,
                 tzinfo = Some utc\<rparr>)
      | None \<Rightarrow>
          Inr (\<lparr>wall = wall (mk_datetime y 2 1 0 0 0 (Some china_tz)) - china_tz,
                 tzinfo = Some utc\<rparr>,
               \<lparr>wall = wall (mk_datetime y 2 8 23 59 59 (Some china_tz)) - china_tz,
                 tzinfo = Some utc\<rparr>))"
proof -
  have feb: "astimezone_utc (mk_datetime y' 2 d h mi s (Some china_tz))
         = Inr \<lparr>wall = wall (mk_datetime y' 2 d h mi s (Some china_tz)) - china_tz,
                tzinfo = Some utc\<rparr>"
    if "1 \<le> y'" "y' \<le> 9999" "1 \<le> d" "d \<le> 28"
       "(h, mi, s) = (0, 0, 0) \<or> (h, mi, s) = (23, 59, 59)" for y' d h mi s
    using that(3-5)
    by (intro astimezone_utc_china [OF that(1,2)])
       (auto simp: days_before_month_2 us_per_day_def us_per_hour_def us_per_minute_def
          us_per_second_def)
  have jan: "astimezone_utc (mk_datetime y' 1 d h mi s (Some china_tz))
         = Inr \<lparr>wall = wall (mk_datetime y' 1 d h mi s (Some china_tz)) - china_tz,
                tzinfo = Some utc\<rparr>"
    if "1 \<le> y'" "y' \<le> 9999" "2 \<le> d" "d \<le> 31"
       "(h, mi, s) = (0, 0, 0) \<or> (h, mi, s) = (23, 59, 59)" for y' d h mi s
    using that(3-5)
    by (intro astimezone_utc_china [OF that(1,2)])
       (auto simp: days_before_month_1 us_per_day_def us_per_hour_def us_per_minute_def
          us_per_second_def)
  consider "y = 2024" | "y = 2025" | "y = 2026" | "y = 2027" | "y = 2028" | "y = 2029"
    | "y = 2030" | "y \<notin> {2024, 2025, 2026, 2027, 2028, 2029, 2030}" by auto
  then show ?thesis
  proof cases
    case 1
    show ?thesis
      using 1 feb [of 2024 10 0 0 0] feb [of 2024 17 23 59 59]
      by (simp add: get_default_spring_festival_dates_def)
  next
    case 2
    show ?thesis
      using 2 jan [of 2025 29 0 0 0] feb [of 2025 5 23 59 59]
      by (simp add: get_default_spring_festival_dates_def)
  next
    case 3
    show ?thesis
      using 3 feb [of 2026 17 0 0 0] feb [of 2026 24 23 59 59]
      by (simp add: get_default_spring_festival_dates_def)
  next
    case 4
    show ?thesis
      using 4 feb [of 2027 6 0 0 0] feb [of 2027 13 23 59 59]
      by (simp add: get_default_spring_festival_dates_def)
  next
    case 5
    show ?thesis
      using 5 jan [of 2028 26 0 0 0] feb [of 2028 2 23 59 59]
      by (simp add: get_default_spring_festival_dates_def)
  next
    case 6
    show ?thesis
      using 6 feb [of 2029 13 0 0 0] feb [of 2029 20 23 59 59]
      by (simp add: get_default_spring_festival_dates_def)
  next
    case 7
    show ?thesis
      using 7 feb [of 2030 3 0 0 0] feb [of 2030 10 23 59 59]
      by (simp add: get_default_spring_festival_dates_def)
  next
    case 8
    show ?thesis
      using 8 feb [OF y, of 1 0 0 0] feb [OF y, of 8 23 59 59]
      by (simp add: get_default_spring_festival_dates_def)
  qed
qed

lemma national_day_explicit:
  assumes "1 \<le> y" "y \<le> 9999"
  shows "astimezone_utc (mk_datetime y 10 1 0 0 0 (Some china_tz))
         = Inr \<lparr>wall = wall (mk_datetime y 10 1 0 0 0 (Some china_tz)) - china_tz,
                tzinfo = Some utc\<rparr>"
    and "astimezone_utc (mk_datetime y 10 8 23 59 59 (Some china_tz))
         = Inr \<lparr>wall = wall (mk_datetime y 10 8 23 59 59 (Some china_tz)) - china_tz,
                tzinfo = Some utc\<rparr>"
  by (rule astimezone_utc_china [OF assms];
      simp add: days_before_month_10 us_per_day_def us_per_hour_def us_per_minute_def
          us_per_second_def)+

lemma stored_bounds_explicit:
  assumes "ssm_get_parameter W y = ParameterFound s e"
    and "0 \<le> wall s - (case tzinfo s of None \<Rightarrow> china_tz | Some off \<Rightarrow> off)"
    and "wall s - (case tzinfo s of None \<Rightarrow> china_tz | Some off \<Rightarrow> off)
           < max_ordinal * us_per_day"
    and "0 \<le> wall e - (case tzinfo e of None \<Rightarrow> china_tz | Some off \<Rightarrow> off)"
    and "wall e - (case tzinfo e of None \<Rightarrow> china_tz | Some off \<Rightarrow> off)
           < max_ordinal * us_per_day"
  shows "get_spring_festival_dates W y =
           (Inr (\<lparr>wall = wall s - (case tzinfo s of None \<Rightarrow> china_tz | Some off \<Rightarrow> off),
                   tzinfo = Some utc\<rparr>,
                 \<lparr>wall = wall e - (case tzinfo e of None \<Rightarrow> china_tz | Some off \<Rightarrow> off),
                   tzinfo = Some utc\<rparr>),
            [SsmGetParameter y])"
proof -
  define s' where "s' = (if tzinfo s = None then replace_tzinfo s china_tz else s)"
  define e' where "e' = (if tzinfo e = None then replace_tzinfo e china_tz else e)"
  have s: "astimezone_utc s'
      = Inr \<lparr>wall = wall s - (case tzinfo s of None \<Rightarrow> china_tz | Some off \<Rightarrow> off),
             tzinfo = Some utc\<rparr>"
    using assms(2,3)
    by (cases "tzinfo s")
       (simp_all add: s'_def astimezone_utc_def utcoffset_def replace_tzinfo_def Let_def)
  have e: "astimezone_utc e'
      = Inr \<lparr>wall = wall e - (case tzinfo e of None \<Rightarrow> china_tz | Some off \<Rightarrow> off),
             tzinfo = Some utc\<rparr>"
    using assms(4,5)
    by (cases "tzinfo e")
       (simp_all add: e'_def astimezone_utc_def utcoffset_def replace_tzinfo_def Let_def)
  show ?thesis
    unfolding get_spring_festival_dates_def Let_def assms(1) ssm_reply.case
      s'_def [symmetric] e'_def [symmetric] s e
    by simp
qed

lemma ensure_utc_instant:
  "utc_instant (ensure_utc dt) = wall dt - (case tzinfo dt of None \<Rightarrow> utc | Some off \<Rightarrow> off)"
  by (simp add: utc_instant_def utcoffset_def ensure_utc_def replace_tzinfo_def
      split: option.splits)

lemma utc_bound_instant: "tzinfo dt = Some utc \<Longrightarrow> utc_instant (ensure_utc dt) = wall dt"
  by (simp add: ensure_utc_instant utc_def)

lemma window_compared_in_utc:
  assumes "valid_datetime ms"
  shows "\<exists>B calls. holidays W (year_of ms) = (Inr B, calls)
           \<and> (\<forall>ib \<in> set B. tzinfo (fst ib) = Some utc \<and> tzinfo (snd ib) = Some utc)
           \<and> check_holiday_conflict W ms me
               = (Inr (\<exists>ib \<in> set B.
                        wall ms - (case tzinfo ms of None \<Rightarrow> utc | Some off \<Rightarrow> off)
                          \<le> wall (snd ib)
                        \<and> wall (fst ib)
                          \<le> wall me - (case tzinfo me of None \<Rightarrow> utc | Some off \<Rightarrow> off)),
                  calls)"
proof -
  have y: "1 \<le> year_of ms" "year_of ms \<le> 9999" using year_of_bounds [OF assms] by simp_all
  obtain n1 n2 s e calls where
    h: "holidays W (year_of ms) = (Inr [(n1, n2), (s, e)], calls)"
    using holidays_ok [OF y] by blast
  define B where "B = [(n1, n2), (s, e)]"
  have tz: "\<forall>ib \<in> set B. tzinfo (fst ib) = Some utc \<and> tzinfo (snd ib) = Some utc"
    using holidays_utc [OF h] by (simp add: B_def)
  have "check_holiday_conflict W ms me
          = (check_holiday_conflict_loop (ensure_utc ms) (ensure_utc me) B, calls)"
    by (simp add: check_holiday_conflict_def Let_def h B_def)
  also have "check_holiday_conflict_loop (ensure_utc ms) (ensure_utc me) B
      = Inr (\<exists>ib \<in> set B. utc_instant (ensure_utc ms) \<le> utc_instant (ensure_utc (snd ib))
                         \<and> utc_instant (ensure_utc (fst ib)) \<le> utc_instant (ensure_utc me))"
    by (rule loop_overlap) (rule ensure_utc_aware)+
  also have "(\<exists>ib \<in> set B. utc_instant (ensure_utc ms) \<le> utc_instant (ensure_utc (snd ib))
                         \<and> utc_instant (ensure_utc (fst ib)) \<le> utc_instant (ensure_utc me))
      = (\<exists>ib \<in> set B.
                        wall ms - (case tzinfo ms of None \<Rightarrow> utc | Some off \<Rightarrow> off)
                          \<le> wall (snd ib)
                        \<and> wall (fst ib)
                          \<le> wall me - (case tzinfo me of None \<Rightarrow> utc | Some off \<Rightarrow> off))"
  proof (intro bex_cong refl)
    fix ib
    assume "ib \<in> set B"
    then have "utc_instant (ensure_utc (snd ib)) = wall (snd ib)"
        "utc_instant (ensure_utc (fst ib)) = wall (fst ib)"
      using tz by (simp_all add: utc_bound_instant)
    then show "(utc_instant (ensure_utc ms) \<le> utc_instant (ensure_utc (snd ib))
                \<and> utc_instant (ensure_utc (fst ib)) \<le> utc_instant (ensure_utc me))
         = (wall ms - (case tzinfo ms of None \<Rightarrow> utc | Some off \<Rightarrow> off) \<le> wall (snd ib)
            \<and> wall (fst ib)
                 \<le> wall me - (case tzinfo me of None \<Rightarrow> utc | Some off \<Rightarrow> off))"
      by (simp only: ensure_utc_instant)
  qed
  finally show ?thesis using h tz unfolding B_def by blast
qed

lemma holidays_explicit:
  assumes "1 \<le> y" "y \<le> 9999"
  shows "\<exists>spring calls. get_spring_festival_dates W y = (Inr spring, calls)
           \<and> holidays W y
               = (Inr [(\<lparr>wall = wall (mk_datetime y 10 1 0 0 0 (Some china_tz)) - china_tz,
                         tzinfo = Some utc\<rparr>,
                        \<lparr>wall = wall (mk_datetime y 10 8 23 59 59 (Some china_tz)) - china_tz,
                         tzinfo = Some utc\<rparr>), spring], calls)"
proof -
  obtain s e calls where s: "get_spring_festival_dates W y = (Inr (s, e), calls)"
    using spring_festival_ok [OF assms] by blast
  show ?thesis
    using s by (simp add: holidays_def national_day_explicit [OF assms])
qed

lemma no_stored_value:
  assumes "ssm_get_parameter W y = ParameterNotFound \<or> ssm_get_parameter W y = SsmFailure"
  shows "fst (get_spring_festival_dates W y) = get_default_spring_festival_dates y"
  using assms by (auto simp: get_spring_festival_dates_def split: sum.splits)


text \<open>
  C2 (amended): in the conflict decision a bound of the maintenance window without zone
  information is compared by its reading taken as UTC, against catalogue bounds that are all
  in UTC; a spring-festival bound read from the parameter store without zone information is
  taken as UTC+8 and converted to UTC (eight hours are subtracted), one with a zone by its
  own offset; the national-holiday bounds and the built-in spring-festival bounds are
  constructed in UTC+8 and converted to UTC; and without a stored value the spring-festival
  bounds are the built-in ones.
\<close>

theorem zone_assumptions:
  "(valid_datetime maintenance_start \<longrightarrow>
      (\<exists>B calls. holidays W (year_of maintenance_start) = (Inr B, calls)
         \<and> (\<forall>ib \<in> set B. tzinfo (fst ib) = Some utc \<and> tzinfo (snd ib) = Some utc)
         \<and> check_holiday_conflict W maintenance_start maintenance_end
             = (Inr (\<exists>ib \<in> set B.
                      wall maintenance_start
                        - (case tzinfo maintenance_start of None \<Rightarrow> utc | Some off \<Rightarrow> off)
                        \<le> wall (snd ib)
                      \<and> wall (fst ib)
                        \<le> wall maintenance_end
                            - (case tzinfo maintenance_end of None \<Rightarrow> utc | Some off \<Rightarrow> off)),
                calls)))
   \<and> (ssm_get_parameter W y = ParameterFound s e
        \<and> 0 \<le> wall s - (case tzinfo s of None \<Rightarrow> china_tz | Some off \<Rightarrow> off)
        \<and> wall s - (case tzinfo s of None \<Rightarrow> china_tz | Some off \<Rightarrow> off)
              < max_ordinal * us_per_day
        \<and> 0 \<le> wall e - (case tzinfo e of None \<Rightarrow> china_tz | Some off \<Rightarrow> off)
        \<and> wall e - (case tzinfo e of None \<Rightarrow> china_tz | Some off \<Rightarrow> off)
              < max_ordinal * us_per_day \<longrightarrow>
      get_spring_festival_dates W y =
        (Inr (\<lparr>wall = wall s - (case tzinfo s of None \<Rightarrow> china_tz | Some off \<Rightarrow> off),
                tzinfo = Some utc\<rparr>,
              \<lparr>wall = wall e - (case tzinfo e of None \<Rightarrow> china_tz | Some off \<Rightarrow> off),
                tzinfo = Some utc\<rparr>),
         [SsmGetParameter y]))
   \<and> (1 \<le> y \<and> y \<le> 9999 \<longrightarrow>
      (\<exists>spring calls. get_spring_festival_dates W y = (Inr spring, calls)
         \<and> holidays W y
             = (Inr [(\<lparr>wall = wall (mk_datetime y 10 1 0 0 0 (Some china_tz)) - china_tz,
                       tzinfo = Some utc\<rparr>,
                      \<lparr>wall = wall (mk_datetime y 10 8 23 59 59 (Some china_tz)) - china_tz,
                       tzinfo = Some utc\<rparr>), spring], calls)))
   \<and> (1 \<le> y \<and> y \<le> 9999 \<longrightarrow>
      get_default_spring_festival_dates y =
        (case map_of [(2024, ((2, 10), (2, 17))), (2025, ((1, 29), (2, 5))),
                      (2026, ((2, 17), (2, 24))), (2027, ((2, 6), (2, 13))),
                      (2028, ((1, 26), (2, 2))), (2029, ((2, 13), (2, 20))),
                      (2030, ((2, 3), (2, 10)))] y of
           Some ((m1, d1), (m2, d2)) \<Rightarrow>
             Inr (\<lparr>wall = wall (mk_datetime y m1 d1 0 0 0 (Some china_tz)) - china_tz,
                    tzinfo = Some utc\<rparr>,
                  \<lparr>wall = wall (mk_datetime y m2 d2 23 59 59 (Some china_tz)) - china_tz,
                    tzinfo = Some utc\<rparr>)
         | None \<Rightarrow>
             Inr (\<lparr>wall = wall (mk_datetime y 2 1 0 0 0 (Some china_tz)) - china_tz,
                    tzinfo = Some utc\<rparr>,
                  \<lparr>wall = wall (mk_datetime y 2 8 23 59 59 (Some china_tz)) - china_tz,
                    tzinfo = Some utc\<rparr>)))
   \<and> (ssm_get_parameter W y = ParameterNotFound \<or> ssm_get_parameter W y = SsmFailure \<longrightarrow>
      fst (get_spring_festival_dates W y) = get_default_spring_festival_dates y)"
proof (intro conjI impI)
  assume "valid_datetime maintenance_start"
  then show "\<exists>B calls. holidays W (year_of maintenance_start) = (Inr B, calls)
         \<and> (\<forall>ib \<in> set B. tzinfo (fst ib) = Some utc \<and> tzinfo (snd ib) = Some utc)
         \<and> check_holiday_conflict W maintenance_start maintenance_end
             = (Inr (\<exists>ib \<in> set B.
                      wall maintenance_start
                        - (case tzinfo maintenance_start of None \<Rightarrow> utc | Some off \<Rightarrow> off)
                        \<le> wall (snd ib)
                      \<and> wall (fst ib)
                        \<le> wall maintenance_end
                            - (case tzinfo maintenance_end of None \<Rightarrow> utc | Some off \<Rightarrow> off)),
                calls)"
    by (rule window_compared_in_utc)
next
  assume "ssm_get_parameter W y = ParameterFound s e
        \<and> 0 \<le> wall s - (case tzinfo s of None \<Rightarrow> china_tz | Some off \<Rightarrow> off)
        \<and> wall s - (case tzinfo s of None \<Rightarrow> china_tz | Some off \<Rightarrow> off)
              < max_ordinal * us_per_day
        \<and> 0 \<le> wall e - (case tzinfo e of None \<Rightarrow> china_tz | Some off \<Rightarrow> off)
        \<and> wall e - (case tzinfo e of None \<Rightarrow> china_tz | Some off \<Rightarrow> off)
              < max_ordinal * us_per_day"
  then show "get_spring_festival_dates W y =
        (Inr (\<lparr>wall = wall s - (case tzinfo s of None \<Rightarrow> china_tz | Some off \<Rightarrow> off),
                tzinfo = Some utc\<rparr>,
              \<lparr>wall = wall e - (case tzinfo e of None \<Rightarrow> china_tz | Some off \<Rightarrow> off),
                tzinfo = Some utc\<rparr>),
         [SsmGetParameter y])"
    by (intro stored_bounds_explicit) blast+
next
  assume "1 \<le> y \<and> y \<le> 9999"
  then show "\<exists>spring calls. get_spring_festival_dates W y = (Inr spring, calls)
         \<and> holidays W y
             = (Inr [(\<lparr>wall = wall (mk_datetime y 10 1 0 0 0 (Some china_tz)) - china_tz,
                       tzinfo = Some utc\<rparr>,
                      \<lparr>wall = wall (mk_datetime y 10 8 23 59 59 (Some china_tz)) - china_tz,
                       tzinfo = Some utc\<rparr>), spring], calls)"
    by (intro holidays_explicit) blast+
next
  assume "1 \<le> y \<and> y \<le> 9999"
  then show "get_default_spring_festival_dates y =
        (case map_of [(2024, ((2, 10), (2, 17))), (2025, ((1, 29), (2, 5))),
                      (2026, ((2, 17), (2, 24))), (2027, ((2, 6), (2, 13))),
                      (2028, ((1, 26), (2, 2))), (2029, ((2, 13), (2, 20))),
                      (2030, ((2, 3), (2, 10)))] y of
           Some ((m1, d1), (m2, d2)) \<Rightarrow>
             Inr (\<lparr>wall = wall (mk_datetime y m1 d1 0 0 0 (Some china_tz)) - china_tz,
                    tzinfo = Some utc\<rparr>,
                  \<lparr>wall = wall (mk_datetime y m2 d2 23 59 59 (Some china_tz)) - china_tz,
                    tzinfo = Some utc\<rparr>)
         | None \<Rightarrow>
             Inr (\<lparr>wall = wall (mk_datetime y 2 1 0 0 0 (Some china_tz)) - china_tz,
                    tzinfo = Some utc\<rparr>,
                  \<lparr>wall = wall (mk_datetime y 2 8 23 59 59 (Some china_tz)) - china_tz,
                    tzinfo = Some utc\<rparr>))"
    by (intro default_spring_explicit) blast+
next
  assume "ssm_get_parameter W y = ParameterNotFound \<or> ssm_get_parameter W y = SsmFailure"
  then show "fst (get_spring_festival_dates W y) = get_default_spring_festival_dates y"
    by (rule no_stored_value)
qed

lemma stored_naive_walls:
  "mk_datetime 2025 1 28 0 0 0 None = \<lparr>wall = 63873619200000000, tzinfo = None\<rparr>"
  "mk_datetime 2025 2 4 23 59 59 None = \<lparr>wall = 63874310399000000, tzinfo = None\<rparr>"
  by (simp_all add: mk_2025 dbm_2025)

theorem zone_assumptions_witness:
  "valid_datetime naive_start
   \<and> tzinfo naive_start = None \<and> tzinfo naive_end = None
   \<and> (\<exists>B calls. holidays world_naive (year_of naive_start) = (Inr B, calls)
         \<and> (\<forall>ib \<in> set B. tzinfo (fst ib) = Some utc \<and> tzinfo (snd ib) = Some utc)
         \<and> check_holiday_conflict world_naive naive_start naive_end
             = (Inr (\<exists>ib \<in> set B.
                      wall naive_start
                        - (case tzinfo naive_start of None \<Rightarrow> utc | Some off \<Rightarrow> off)
                        \<le> wall (snd ib)
                      \<and> wall (fst ib)
                        \<le> wall naive_end
                            - (case tzinfo naive_end of None \<Rightarrow> utc | Some off \<Rightarrow> off)),
                calls))
   \<and> ssm_get_parameter world_naive 2025
       = ParameterFound \<lparr>wall = 63873619200000000, tzinfo = None\<rparr>
                        \<lparr>wall = 63874310399000000, tzinfo = None\<rparr>
   \<and> get_spring_festival_dates world_naive 2025
       = (Inr (\<lparr>wall = 63873590400000000, tzinfo = Some 0\<rparr>,
               \<lparr>wall = 63874281599000000, tzinfo = Some 0\<rparr>), [SsmGetParameter 2025])
   \<and> (1::int) \<le> 2025 \<and> (2025::int) \<le> 9999
   \<and> (\<exists>spring calls. get_spring_festival_dates world_naive 2025 = (Inr spring, calls)
         \<and> holidays world_naive 2025
             = (Inr [(\<lparr>wall = 63894844800000000, tzinfo = Some 0\<rparr>,
                      \<lparr>wall = 63895535999000000, tzinfo = Some 0\<rparr>), spring], calls))
   \<and> get_default_spring_festival_dates 2025
       = Inr (\<lparr>wall = 63873676800000000, tzinfo = Some 0\<rparr>,
              \<lparr>wall = 63874367999000000, tzinfo = Some 0\<rparr>)
   \<and> ssm_get_parameter world_default 2025 = ParameterNotFound
   \<and> fst (get_spring_festival_dates world_default 2025)
       = get_default_spring_festival_dates 2025"
proof -
  let ?s = "\<lparr>wall = 63873619200000000, tzinfo = None\<rparr>"
  let ?e = "\<lparr>wall = 63874310399000000, tzinfo = None\<rparr>"
  note a = zone_assumptions [of naive_start world_naive naive_end 2025 ?s ?e]
  note b = zone_assumptions [of naive_start world_default naive_end 2025 ?s ?e]
  have v: "valid_datetime naive_start"
    by (simp add: valid_datetime_def concrete_windows max_ordinal_def us_per_day_def)
  have n: "tzinfo naive_start = None" "tzinfo naive_end = None"
    by (simp_all add: concrete_windows)
  have p: "ssm_get_parameter world_naive 2025 = ParameterFound ?s ?e"
    by (simp add: world_naive_def stored_naive_walls)
  have r: "0 \<le> wall ?s - (case tzinfo ?s of None \<Rightarrow> china_tz | Some off \<Rightarrow> off)"
    "wall ?s - (case tzinfo ?s of None \<Rightarrow> china_tz | Some off \<Rightarrow> off)
       < max_ordinal * us_per_day"
    "0 \<le> wall ?e - (case tzinfo ?e of None \<Rightarrow> china_tz | Some off \<Rightarrow> off)"
    "wall ?e - (case tzinfo ?e of None \<Rightarrow> china_tz | Some off \<Rightarrow> off)
       < max_ordinal * us_per_day"
    by (simp_all add: china_tz_def us_per_hour_def max_ordinal_def us_per_day_def)
  have y: "(1::int) \<le> 2025 \<and> (2025::int) \<le> 9999" by simp
  have q: "ssm_get_parameter world_default 2025 = ParameterNotFound"
    by (simp add: world_default_def)
  have 1: "\<exists>B calls. holidays world_naive (year_of naive_start) = (Inr B, calls)
         \<and> (\<forall>ib \<in> set B. tzinfo (fst ib) = Some utc \<and> tzinfo (snd ib) = Some utc)
         \<and> check_holiday_conflict world_naive naive_start naive_end
             = (Inr (\<exists>ib \<in> set B.
                      wall naive_start
                        - (case tzinfo naive_start of None \<Rightarrow> utc | Some off \<Rightarrow> off)
                        \<le> wall (snd ib)
                      \<and> wall (fst ib)
                        \<le> wall naive_end
                            - (case tzinfo naive_end of None \<Rightarrow> utc | Some off \<Rightarrow> off)),
                calls)"
    using a v by blast
  have "get_spring_festival_dates world_naive 2025 =
        (Inr (\<lparr>wall = wall ?s - (case tzinfo ?s of None \<Rightarrow> china_tz | Some off \<Rightarrow> off),
                tzinfo = Some utc\<rparr>,
              \<lparr>wall = wall ?e - (case tzinfo ?e of None \<Rightarrow> china_tz | Some off \<Rightarrow> off),
                tzinfo = Some utc\<rparr>),
         [SsmGetParameter 2025])"
    using a p r by blast
  then have 2: "get_spring_festival_dates world_naive 2025
       = (Inr (\<lparr>wall = 63873590400000000, tzinfo = Some 0\<rparr>,
               \<lparr>wall = 63874281599000000, tzinfo = Some 0\<rparr>), [SsmGetParameter 2025])"
    by (simp add: china_tz_def us_per_hour_def utc_def)
  have "\<exists>spring calls. get_spring_festival_dates world_naive 2025 = (Inr spring, calls)
         \<and> holidays world_naive 2025
             = (Inr [(\<lparr>wall = wall (mk_datetime 2025 10 1 0 0 0 (Some china_tz)) - china_tz,
                       tzinfo = Some utc\<rparr>,
                      \<lparr>wall = wall (mk_datetime 2025 10 8 23 59 59 (Some china_tz)) - china_tz,
                       tzinfo = Some utc\<rparr>), spring], calls)"
    using a y by blast
  then have 3: "\<exists>spring calls. get_spring_festival_dates world_naive 2025 = (Inr spring, calls)
         \<and> holidays world_naive 2025
             = (Inr [(\<lparr>wall = 63894844800000000, tzinfo = Some 0\<rparr>,
                      \<lparr>wall = 63895535999000000, tzinfo = Some 0\<rparr>), spring], calls)"
    by (simp add: mk_2025 dbm_2025 china_tz_def us_per_hour_def utc_def)
  have "get_default_spring_festival_dates 2025 =
        (case map_of [(2024, ((2, 10), (2, 17))), (2025, ((1, 29), (2, 5))),
                      (2026, ((2, 17), (2, 24))), (2027, ((2, 6), (2, 13))),
                      (2028, ((1, 26), (2, 2))), (2029, ((2, 13), (2, 20))),
                      (2030, ((2, 3), (2, 10)))] (2025::int) of
           Some ((m1, d1), (m2, d2)) \<Rightarrow>
             Inr (\<lparr>wall = wall (mk_datetime 2025 m1 d1 0 0 0 (Some china_tz)) - china_tz,
                    tzinfo = Some utc\<rparr>,
                  \<lparr>wall = wall (mk_datetime 2025 m2 d2 23 59 59 (Some china_tz)) - china_tz,
                    tzinfo = Some utc\<rparr>)
         | None \<Rightarrow>
             Inr (\<lparr>wall = wall (mk_datetime 2025 2 1 0 0 0 (Some china_tz)) - china_tz,
                    tzinfo = Some utc\<rparr>,
                  \<lparr>wall = wall (mk_datetime 2025 2 8 23 59 59 (Some china_tz)) - china_tz,
                    tzinfo = Some utc\<rparr>))"
    using a y by blast
  then have 4: "get_default_spring_festival_dates 2025
       = Inr (\<lparr>wall = 63873676800000000, tzinfo = Some 0\<rparr>,
              \<lparr>wall = 63874367999000000, tzinfo = Some 0\<rparr>)"
    by (simp add: mk_2025 dbm_2025 china_tz_def us_per_hour_def utc_def)
  have 5: "fst (get_spring_festival_dates world_default 2025)
       = get_default_spring_festival_dates 2025"
    using b q by blast
  show ?thesis using v n 1 p 2 y 3 4 q 5 by blast
qed

section \<open>Properties of the schedule request\<close>




lemma str_nat_1759291200: "str_nat 1759291200 = ''1759291200''"
  by (simp add: str_nat.simps)












section \<open>Properties of the identity resolver and the planner handler\<close>

lemma split_on_length: "length (split_on sep s) = Suc (length (filter (\<lambda>c. c = sep) s))"
  by (induction s) (auto split: list.splits)

lemma split_on_no_sep: "sep \<notin> set s \<Longrightarrow> split_on sep s = [s]"
  by (induction s) auto

text \<open>
  C7: \<open>parse_ecs_resource_info\<close> returns a (cluster, service) pair for every string: the
  one exception its body can raise ends in the sentinel; and a string that has neither the
  structured-identifier shape nor the pair shape yields the sentinel
  \<open>(unknown-cluster, unknown-service)\<close>, without any external call.
\<close>

theorem resolver_total_sentinel:
  "(\<exists>cluster service calls.
       parse_ecs_resource_info W raw = ((cluster, service), calls))
   \<and> (fst (parse_ecs_resource_info_body W raw) = Inl e \<longrightarrow>
        fst (parse_ecs_resource_info W raw) = (''unknown-cluster'', ''unknown-service''))
   \<and> (\<not> structured_identifier_shape raw \<and> \<not> pair_shape raw \<longrightarrow>
        parse_ecs_resource_info W raw = ((''unknown-cluster'', ''unknown-service''), []))"
proof (intro conjI impI)
  show "\<exists>cluster service calls. parse_ecs_resource_info W raw = ((cluster, service), calls)"
    by (metis prod.exhaust)
next
  assume "fst (parse_ecs_resource_info_body W raw) = Inl e"
  then show "fst (parse_ecs_resource_info W raw) = (''unknown-cluster'', ''unknown-service'')"
    by (cases "parse_ecs_resource_info_body W raw") (simp add: parse_ecs_resource_info_def)
next
  assume a: "\<not> structured_identifier_shape raw \<and> \<not> pair_shape raw"
  show "parse_ecs_resource_info W raw = ((''unknown-cluster'', ''unknown-service''), [])"
  proof (cases "startswith ''arn:aws'' raw")
    case True
    then have "\<not> (length (split_on CHR ''/'' raw) \<ge> 3 \<and> length (split_on CHR '':'' raw) \<ge> 6)"
      using a by (simp add: structured_identifier_shape_def)
    then have "parse_ecs_resource_info_body W raw = (Inl IndexError, [])
             \<or> parse_ecs_resource_info_body W raw
                 = (Inr (''unknown-cluster'', ''unknown-service''), [])"
      using True by (auto simp: parse_ecs_resource_info_body_def Let_def)
    then show ?thesis by (auto simp: parse_ecs_resource_info_def)
  next
    case False
    have "length (split_on CHR ''|'' raw) \<noteq> 2" using a by (simp add: pair_shape_def)
    then have "parse_ecs_resource_info_body W raw
                 = (Inr (''unknown-cluster'', ''unknown-service''), [])"
      using False by (simp add: parse_ecs_resource_info_body_def Let_def)
    then show ?thesis by (simp add: parse_ecs_resource_info_def)
  qed
qed

lemma resolve_checkout:
  "parse_ecs_resource_info W checkout_arn = ((''prod-cluster'', ''checkout-svc''), [])"
  by (simp add: parse_ecs_resource_info_def parse_ecs_resource_info_body_def Let_def
      checkout_arn_def)

lemma resolve_pair:
  "parse_ecs_resource_info W ''prod-cluster|checkout-svc''
     = ((''prod-cluster'', ''checkout-svc''), [])"
  by (simp add: parse_ecs_resource_info_def parse_ecs_resource_info_body_def Let_def
      strip_def is_space_def)

lemma resolve_short_arn:
  "parse_ecs_resource_info_body W ''arn:aws/a/b'' = (Inl IndexError, [])
   \<and> parse_ecs_resource_info W ''arn:aws/a/b'' = ((''unknown-cluster'', ''unknown-service''), [])"
  by (simp add: parse_ecs_resource_info_def parse_ecs_resource_info_body_def Let_def)

theorem resolver_total_sentinel_witness:
  "fst (parse_ecs_resource_info_body world_default ''arn:aws/a/b'') = Inl IndexError
   \<and> fst (parse_ecs_resource_info world_default ''arn:aws/a/b'')
       = (''unknown-cluster'', ''unknown-service'')
   \<and> \<not> structured_identifier_shape ''checkout-svc'' \<and> \<not> pair_shape ''checkout-svc''
   \<and> parse_ecs_resource_info world_default ''checkout-svc''
       = ((''unknown-cluster'', ''unknown-service''), [])"
proof -
  have 1: "fst (parse_ecs_resource_info_body world_default ''arn:aws/a/b'') = Inl IndexError"
    by (simp add: resolve_short_arn)
  have 2: "\<not> structured_identifier_shape ''checkout-svc'' \<and> \<not> pair_shape ''checkout-svc''"
    by (simp add: structured_identifier_shape_def pair_shape_def)
  from resolver_total_sentinel [of world_default "''arn:aws/a/b''" IndexError] 1
  have 3: "fst (parse_ecs_resource_info world_default ''arn:aws/a/b'')
       = (''unknown-cluster'', ''unknown-service'')" by blast
  from resolver_total_sentinel [of world_default "''checkout-svc''" IndexError] 2
  have 4: "parse_ecs_resource_info world_default ''checkout-svc''
       = ((''unknown-cluster'', ''unknown-service''), [])" by blast
  show ?thesis using 1 2 3 4 by blast
qed

lemma planner_early_return:
  assumes "dict_get event ''detail'' (JObj []) = JObj detail"
      and "\<not> truthy (dict_get detail ''startTime'' JNull)
           \<or> \<not> truthy (dict_get detail ''endTime'' JNull)"
  shows "lambda_handler_planner L W event
         = (\<lparr>p_statusCode = 200, p_body = BodyText ''No maintenance window found''\<rparr>, [])"
  using assms by (auto simp: lambda_handler_planner_def lambda_handler_try_def Let_def)

text \<open>
  C9: when the detail of the planner event (a dictionary, or absent) lacks \<open>startTime\<close> or
  \<open>endTime\<close>, the handler answers 200 with the body \<open>No maintenance window found\<close> and
  makes no external call: no parameter-store query of the overlap check, no schedule, no
  notification.
\<close>

theorem no_window_no_action:
  assumes "dict_get event ''detail'' (JObj []) = JObj detail"
      and "map_of detail ''startTime'' = None \<or> map_of detail ''endTime'' = None"
  shows "lambda_handler_planner L W event
         = (\<lparr>p_statusCode = 200, p_body = BodyText ''No maintenance window found''\<rparr>, [])"
proof -
  have "\<not> truthy (dict_get detail ''startTime'' JNull)
           \<or> \<not> truthy (dict_get detail ''endTime'' JNull)"
    using assms(2) by (auto simp: dict_get_def)
  with assms(1) show ?thesis by (rule planner_early_return)
qed

theorem no_window_no_action_witness:
  "dict_get ev_no_start ''detail'' (JObj [])
     = JObj [(''endTime'', JStr ''2025-10-03T00:00:00Z'')]
   \<and> (map_of [(''endTime'', JStr ''2025-10-03T00:00:00Z'')] ''startTime'' = None
      \<or> map_of [(''endTime'', JStr ''2025-10-03T00:00:00Z'')] ''endTime'' = None)
   \<and> lambda_handler_planner library_table world_default ev_no_start
       = (\<lparr>p_statusCode = 200, p_body = BodyText ''No maintenance window found''\<rparr>, [])"
proof -
  have 1: "dict_get ev_no_start ''detail'' (JObj [])
     = JObj [(''endTime'', JStr ''2025-10-03T00:00:00Z'')]"
    by (simp add: ev_no_start_def dict_get_def)
  have 2: "map_of [(''endTime'', JStr ''2025-10-03T00:00:00Z'')] ''startTime'' = None
      \<or> map_of [(''endTime'', JStr ''2025-10-03T00:00:00Z'')] ''endTime'' = None"
    by simp
  from no_window_no_action [OF 1 2, of library_table world_default] 1 2
  show ?thesis by blast
qed

end
